theory Spec2Isabelle
  imports Complex_Main
begin

section \<open>Python text primitives used by the optimizer\<close>

text \<open>
  A Python string is modelled as a \<^typ>\<open>string\<close>: the character with code \<open>n\<close> is the code
  point \<open>U+00nn\<close>, so the strings of the model are the Python strings over the code points
  \<open>U+0000\<close> to \<open>U+00FF\<close>. The case mapping, the word class of the pattern \<^verbatim>\<open>\w\<close>, the
  whitespace class of \<^verbatim>\<open>str.strip\<close> and the printable class of \<^verbatim>\<open>repr\<close> are those of Python on
  all of these code points.
\<close>

text \<open>\<^verbatim>\<open>str.lower\<close> on one code point: \<open>A\<close> to \<open>Z\<close> and the capitals \<open>U+00C0\<close> to \<open>U+00DE\<close>
  (the sign \<open>U+00D7\<close> is no letter) move up by 32; every other code point stays.\<close>

definition lower_char :: "char \<Rightarrow> char" where
  "lower_char c =
     (let n = (of_char c :: nat)
      in if (0x41 \<le> n \<and> n \<le> 0x5A) \<or> (0xC0 \<le> n \<and> n \<le> 0xDE \<and> n \<noteq> 0xD7)
         then char_of (n + 32) else c)"

definition py_lower :: "string \<Rightarrow> string" where
  "py_lower s = map lower_char s"

text \<open>The class \<^verbatim>\<open>\w\<close> of a pattern on \<^verbatim>\<open>str\<close>: the underscore and the alphanumeric code
  points, which are the ASCII digits and letters, the letters \<open>U+00AA\<close>, \<open>U+00B5\<close>, \<open>U+00BA\<close>,
  the superscript digits \<open>U+00B2\<close>, \<open>U+00B3\<close>, \<open>U+00B9\<close>, the fractions \<open>U+00BC\<close> to \<open>U+00BE\<close>
  and the letters from \<open>U+00C0\<close> on (\<open>U+00D7\<close> and \<open>U+00F7\<close> are signs).\<close>

definition is_word_char :: "char \<Rightarrow> bool" where
  "is_word_char c \<longleftrightarrow>
     (let n = (of_char c :: nat)
      in (0x30 \<le> n \<and> n \<le> 0x39) \<or> (0x41 \<le> n \<and> n \<le> 0x5A) \<or> n = 0x5F
         \<or> (0x61 \<le> n \<and> n \<le> 0x7A)
         \<or> n = 0xAA \<or> n = 0xB2 \<or> n = 0xB3 \<or> n = 0xB5 \<or> n = 0xB9 \<or> n = 0xBA
         \<or> (0xBC \<le> n \<and> n \<le> 0xBE)
         \<or> (0xC0 \<le> n \<and> n \<noteq> 0xD7 \<and> n \<noteq> 0xF7))"

text \<open>The whitespace of \<^verbatim>\<open>str.strip\<close>: \<open>U+0009\<close> to \<open>U+000D\<close>, \<open>U+001C\<close> to \<open>U+0020\<close>,
  \<open>U+0085\<close> and \<open>U+00A0\<close>.\<close>

definition is_space :: "char \<Rightarrow> bool" where
  "is_space c \<longleftrightarrow>
     (let n = (of_char c :: nat)
      in (0x09 \<le> n \<and> n \<le> 0x0D) \<or> (0x1C \<le> n \<and> n \<le> 0x20) \<or> n = 0x85 \<or> n = 0xA0)"

definition py_strip :: "string \<Rightarrow> string" where
  "py_strip s = rev (dropWhile is_space (rev (dropWhile is_space s)))"

text \<open>\<^verbatim>\<open>re.findall(r"\w+", s)\<close>: the maximal runs of word characters, left to right.
  The first argument is the run being read.\<close>

fun findall_w_from :: "string \<Rightarrow> string \<Rightarrow> string list" where
  "findall_w_from cur [] = (if cur = [] then [] else [cur])"
| "findall_w_from cur (c # cs) =
     (if is_word_char c then findall_w_from (cur @ [c]) cs
      else if cur = [] then findall_w_from [] cs
      else cur # findall_w_from [] cs)"

definition findall_w :: "string \<Rightarrow> string list" where
  "findall_w s = findall_w_from [] s"

text \<open>\<^verbatim>\<open>sep.join(parts)\<close>.\<close>

fun py_join :: "string \<Rightarrow> string list \<Rightarrow> string" where
  "py_join sep [] = []"
| "py_join sep [x] = x"
| "py_join sep (x # y # ys) = x @ sep @ py_join sep (y # ys)"

text \<open>\<^verbatim>\<open>xs[:k]\<close> for a Python integer \<open>k\<close>: a negative bound counts from the end.\<close>

definition py_slice_upto :: "'a list \<Rightarrow> int \<Rightarrow> 'a list" where
  "py_slice_upto xs k =
     (if 0 \<le> k then take (nat k) xs else take (length xs - nat (- k)) xs)"

section \<open>Python values\<close>

text \<open>
  The values that travel through the dispatcher: JSON-like data and opaque objects.
  A dictionary is an association list with distinct string keys in insertion order; an opaque
  object carries the text its \<^verbatim>\<open>str\<close>/\<^verbatim>\<open>repr\<close> yields and its attributes. Floating point
  numbers are not part of the model.
\<close>

datatype pyval =
    PNone
  | PBool bool
  | PInt int
  | PStr string
  | PList "pyval list"
  | PDict "(string \<times> pyval) list"
  | PObj string "(string \<times> pyval) list"

section \<open>The registry\<close>

type_synonym client = nat

text \<open>One \<^verbatim>\<open>MCPAgentTool\<close> as \<^verbatim>\<open>register\<close> reads it: \<^verbatim>\<open>tool_name\<close> and the two keys of
  \<^verbatim>\<open>tool_spec\<close> it looks up, \<open>None\<close> when the key is absent.\<close>

record mcp_tool =
  tool_name :: string
  spec_description :: "string option"
  spec_inputSchema :: "(string \<times> pyval) list option"

record entry =
  name :: string
  description :: string
  input_schema :: pyval
  server_name :: string
  started_client :: client

record registry =
  tools :: "entry list"
  index :: "string \<rightharpoonup> entry"

definition empty_registry :: registry where
  "empty_registry = \<lparr>tools = [], index = Map.empty\<rparr>"

text \<open>\<^verbatim>\<open>d.get(k, default)\<close> on a dictionary.\<close>

definition dict_get :: "(string \<times> pyval) list \<Rightarrow> string \<Rightarrow> pyval \<Rightarrow> pyval" where
  "dict_get d k dflt = (case map_of d k of Some v \<Rightarrow> v | None \<Rightarrow> dflt)"

text \<open>The body of the loop of \<^verbatim>\<open>register\<close> up to the two stores: the entry built for one tool.\<close>

definition make_entry :: "string \<Rightarrow> client \<Rightarrow> mcp_tool \<Rightarrow> entry" where
  "make_entry srv cl t =
     (let description = (case spec_description t of Some d \<Rightarrow> d | None \<Rightarrow> []);
          raw_schema = (case spec_inputSchema t of Some s \<Rightarrow> s | None \<Rightarrow> []);
          input_schema = dict_get raw_schema ''json'' (PDict raw_schema)
      in \<lparr>name = py_lower srv @ ''_'' @ tool_name t,
          description = description,
          input_schema = input_schema,
          server_name = srv,
          started_client = cl\<rparr>)"

text \<open>The loop of \<^verbatim>\<open>register\<close>: the registry and the counter are threaded through.\<close>

fun register_loop :: "string \<Rightarrow> client \<Rightarrow> mcp_tool list \<Rightarrow> registry \<times> nat \<Rightarrow> registry \<times> nat" where
  "register_loop srv cl [] (r, count) = (r, count)"
| "register_loop srv cl (t # ts) (r, count) =
     (let e = make_entry srv cl t
      in register_loop srv cl ts
           (\<lparr>tools = tools r @ [e], index = (index r)(tool_name t \<mapsto> e)\<rparr>, count + 1))"

definition register :: "registry \<Rightarrow> string \<Rightarrow> client \<Rightarrow> mcp_tool list \<Rightarrow> registry \<times> nat" where
  "register r srv cl mcp_tools = register_loop srv cl mcp_tools (r, 0)"

definition get :: "registry \<Rightarrow> string \<Rightarrow> entry option" where
  "get r nm = index r nm"

text \<open>The registry after a sequence of \<^verbatim>\<open>register\<close> calls, one per backend, and the raw tool
  names those calls were given.\<close>

fun register_all :: "registry \<Rightarrow> (string \<times> client \<times> mcp_tool list) list \<Rightarrow> registry" where
  "register_all r [] = r"
| "register_all r ((srv, cl, ts) # batches) = register_all (fst (register r srv cl ts)) batches"

definition registered_raw_names :: "(string \<times> client \<times> mcp_tool list) list \<Rightarrow> string list" where
  "registered_raw_names batches = concat (map (\<lambda>(srv, cl, ts). map tool_name ts) batches)"

definition total :: "registry \<Rightarrow> nat" where
  "total r = length (tools r)"

text \<open>\<^verbatim>\<open>servers\<close>: the distinct server names in first-seen order.\<close>

fun servers_loop :: "entry list \<Rightarrow> string list \<Rightarrow> string list" where
  "servers_loop [] seen = seen"
| "servers_loop (e # es) seen =
     (if server_name e \<notin> set seen then servers_loop es (seen @ [server_name e])
      else servers_loop es seen)"

definition servers :: "registry \<Rightarrow> string list" where
  "servers r = servers_loop (tools r) []"

subsection \<open>Keyword search\<close>

text \<open>
  The score of an entry is the Python quotient \<^verbatim>\<open>len(found) / len(words)\<close>. It is modelled
  by the exact rational: both cardinalities are far below \<open>2 ^ 52\<close>, where the rounded
  quotient is positive exactly when the exact one is and orders two quotients over the
  same denominator as the exact ones.
\<close>

definition score :: "string set \<Rightarrow> entry \<Rightarrow> rat" where
  "score words e =
     (let text = py_lower (name e @ '' '' @ description e);
          found = words \<inter> set (findall_w text)
      in of_nat (card found) / of_nat (card words))"

fun score_loop :: "string set \<Rightarrow> entry list \<Rightarrow> (rat \<times> entry) list \<Rightarrow> (rat \<times> entry) list" where
  "score_loop words [] scored = scored"
| "score_loop words (e # es) scored =
     (let sc = score words e
      in if sc > 0 then score_loop words es (scored @ [(sc, e)])
         else score_loop words es scored)"

text \<open>\<^verbatim>\<open>scored.sort(key=lambda x: x[0], reverse=True)\<close>: Python's sort is stable, and with
  \<^verbatim>\<open>reverse=True\<close> it orders by descending key and still keeps equal keys in their
  original order. That is the stable insertion sort on the negated key.\<close>

definition sort_by_score_desc :: "(rat \<times> entry) list \<Rightarrow> (rat \<times> entry) list" where
  "sort_by_score_desc scored = sort_key (\<lambda>x. - fst x) scored"

text \<open>The entries of the sorted list, \<^verbatim>\<open>[e for _, e in scored]\<close>, before the slice.\<close>

definition ranked :: "string set \<Rightarrow> entry list \<Rightarrow> entry list" where
  "ranked words es = map snd (sort_by_score_desc (score_loop words es []))"

definition search :: "registry \<Rightarrow> string \<Rightarrow> int \<Rightarrow> entry list" where
  "search r query top_k =
     (let words = set (findall_w (py_lower query))
      in if words = {} then py_slice_upto (tools r) top_k
         else map snd (py_slice_upto (sort_by_score_desc (score_loop words (tools r) [])) top_k))"

section \<open>Text of Python values\<close>

definition NL :: string where
  "NL = [CHR 0x0A]"

text \<open>The decimal digits of a count or an index, as an f-string writes a non-negative
  Python integer.\<close>

fun decimal_digits :: "nat \<Rightarrow> string" where
  "decimal_digits n =
     (let last_digit = ''0123456789'' ! (n mod 10)
      in if 10 \<le> n then decimal_digits (n div 10) @ [last_digit] else [last_digit])"

text \<open>\<^verbatim>\<open>str(i)\<close> for a Python integer: the sign, then the digits of the magnitude.\<close>

definition py_str_int :: "int \<Rightarrow> string" where
  "py_str_int i =
     (let magnitude = decimal_digits (nat \<bar>i\<bar>)
      in if 0 \<le> i then magnitude else CHR ''-'' # magnitude)"

text \<open>\<^verbatim>\<open>repr\<close> of a string: single quotes unless the text has a single quote and no double
  quote; the quote and the backslash are escaped, tab, newline and carriage return are
  written as letters, and the other code points that are not printable (\<open>U+0000\<close> to
  \<open>U+001F\<close>, \<open>U+007F\<close> to \<open>U+00A0\<close> and \<open>U+00AD\<close>) as \<^verbatim>\<open>\xhh\<close>.\<close>

definition repr_char :: "char \<Rightarrow> char \<Rightarrow> string" where
  "repr_char q c =
     (if c = q \<or> c = CHR 0x5C then [CHR 0x5C, c]
      else if c = CHR 0x09 then [CHR 0x5C, CHR ''t'']
      else if c = CHR 0x0A then [CHR 0x5C, CHR ''n'']
      else if c = CHR 0x0D then [CHR 0x5C, CHR ''r'']
      else if of_char c < (0x20 :: nat)
              \<or> (0x7F \<le> (of_char c :: nat) \<and> of_char c \<le> (0xA0 :: nat))
              \<or> c = CHR 0xAD then
        [CHR 0x5C, CHR ''x'', ''0123456789abcdef'' ! (of_char c div 16),
         ''0123456789abcdef'' ! (of_char c mod 16)]
      else [c])"

definition repr_str :: "string \<Rightarrow> string" where
  "repr_str s =
     (let q = (if CHR 0x27 \<in> set s \<and> CHR 0x22 \<notin> set s then CHR 0x22 else CHR 0x27)
      in [q] @ concat (map (repr_char q) s) @ [q])"

fun py_repr :: "pyval \<Rightarrow> string"
  and py_repr_items :: "pyval list \<Rightarrow> string list"
  and py_repr_pairs :: "(string \<times> pyval) list \<Rightarrow> string list" where
  "py_repr PNone = ''None''"
| "py_repr (PBool b) = (if b then ''True'' else ''False'')"
| "py_repr (PInt i) = py_str_int i"
| "py_repr (PStr s) = repr_str s"
| "py_repr (PList xs) = ''['' @ py_join '', '' (py_repr_items xs) @ '']''"
| "py_repr (PDict d) = ''{'' @ py_join '', '' (py_repr_pairs d) @ ''}''"
| "py_repr (PObj s attrs) = s"
| "py_repr_items [] = []"
| "py_repr_items (x # xs) = py_repr x # py_repr_items xs"
| "py_repr_pairs [] = []"
| "py_repr_pairs ((k, v) # d) = (repr_str k @ '': '' @ py_repr v) # py_repr_pairs d"

text \<open>\<^verbatim>\<open>str(v)\<close>: the text itself for a string, the \<^verbatim>\<open>repr\<close> otherwise.\<close>

definition py_str :: "pyval \<Rightarrow> string" where
  "py_str v = (case v of PStr s \<Rightarrow> s | _ \<Rightarrow> py_repr v)"

text \<open>Truth value of a Python value; an opaque object is true.\<close>

fun truthy :: "pyval \<Rightarrow> bool" where
  "truthy PNone = False"
| "truthy (PBool b) = b"
| "truthy (PInt i) = (i \<noteq> 0)"
| "truthy (PStr s) = (s \<noteq> [])"
| "truthy (PList xs) = (xs \<noteq> [])"
| "truthy (PDict d) = (d \<noteq> [])"
| "truthy (PObj s attrs) = True"

section \<open>The dispatcher\<close>

text \<open>The exceptions that can leave the operation: the two the body itself can raise, and
  \<open>Propagated cls msg\<close>, an exception of the decoder or of the session that no handler of
  \<^verbatim>\<open>call_tool\<close> catches, with the name of its type and its text.\<close>

datatype py_exc = AttributeError | TypeError | Propagated string string

text \<open>What \<^verbatim>\<open>call_tool_sync\<close> does: it returns a value or raises. In \<open>Raises inst cls msg\<close>
  the exception has the type name \<open>cls\<close> and the text \<open>msg\<close>, and \<open>inst\<close> tells whether it is
  an instance of \<^verbatim>\<open>Exception\<close>, the class the handler of \<^verbatim>\<open>call_tool\<close> names; it is not for
  \<^verbatim>\<open>KeyboardInterrupt\<close>, \<^verbatim>\<open>SystemExit\<close> and the other classes that derive from
  \<^verbatim>\<open>BaseException\<close> only.\<close>

datatype call_outcome = Returns pyval | Raises bool string string

record invocation =
  inv_client :: client
  inv_tool_use_id :: string
  inv_name :: string
  inv_arguments :: pyval

type_synonym session = "client \<Rightarrow> string \<Rightarrow> string \<Rightarrow> pyval \<Rightarrow> call_outcome"

text \<open>\<^verbatim>\<open>json.loads\<close> belongs to the Python library, not to the optimizer: the dispatcher takes
  the decoder as a parameter. It returns a value, or raises \<^verbatim>\<open>JSONDecodeError\<close> with a text,
  or raises an exception of another type (\<^verbatim>\<open>RecursionError\<close> on deeply nested text,
  \<^verbatim>\<open>ValueError\<close> on an integer literal beyond the digit limit), given by the name of its
  type and its text.\<close>

datatype loads_outcome = Decoded pyval | JSONDecodeError string | LoadsRaised string string

type_synonym decoder = "string \<Rightarrow> loads_outcome"

datatype parse_outcome = Parsed pyval | Rejected string | ParseRaised py_exc

definition invalid_arguments_message :: "string \<Rightarrow> string \<Rightarrow> string" where
  "invalid_arguments_message args_str exc =
     ''ERROR: arguments must be a valid JSON string.'' @ NL @
     ''Received: '' @ repr_str args_str @ NL @
     ''JSON error: '' @ exc @ NL @
     ''Example: '' @ [CHR 0x27] @ ''{'' @ [CHR 0x22] @ ''issue_key'' @ [CHR 0x22] @ '': '' @
       [CHR 0x22] @ ''RBTES-121'' @ [CHR 0x22] @ ''}'' @ [CHR 0x27]"

text \<open>The argument parsing of \<^verbatim>\<open>call_tool\<close>. A value that is neither a dictionary nor false
  nor a string has no \<^verbatim>\<open>strip\<close>: \<^verbatim>\<open>AttributeError\<close> leaves the operation. The handler names
  \<^verbatim>\<open>JSONDecodeError\<close> only: any other exception of the decoder leaves the operation too.\<close>

definition parse_arguments :: "decoder \<Rightarrow> pyval \<Rightarrow> parse_outcome" where
  "parse_arguments loads arguments =
     (case arguments of
        PDict d \<Rightarrow> Parsed (PDict d)
      | _ \<Rightarrow>
          (case (if truthy arguments then arguments else PStr ''{}'') of
             PStr s \<Rightarrow>
               (let args_str = py_strip s
                in case loads args_str of
                     Decoded args \<Rightarrow> Parsed args
                   | JSONDecodeError exc \<Rightarrow>
                       Rejected (invalid_arguments_message args_str exc)
                   | LoadsRaised cls msg \<Rightarrow> ParseRaised (Propagated cls msg))
           | _ \<Rightarrow> ParseRaised AttributeError))"

text \<open>Iterating a value: a list yields its items, a dictionary its keys, a string its
  characters; the other values are not iterable.\<close>

fun py_iter :: "pyval \<Rightarrow> py_exc + pyval list" where
  "py_iter (PList xs) = Inr xs"
| "py_iter (PDict d) = Inr (map (\<lambda>kv. PStr (fst kv)) d)"
| "py_iter (PStr s) = Inr (map (\<lambda>c. PStr [c]) s)"
| "py_iter v = Inl TypeError"

text \<open>The \<^verbatim>\<open>text\<close> of one content block: \<^verbatim>\<open>block.get("text", "")\<close> for a dictionary,
  \<^verbatim>\<open>getattr(block, "text", "")\<close> otherwise (a built-in value has no such attribute).\<close>

fun block_text :: "pyval \<Rightarrow> pyval" where
  "block_text (PDict b) = dict_get b ''text'' (PStr [])"
| "block_text (PObj s attrs) = dict_get attrs ''text'' (PStr [])"
| "block_text v = PStr []"

fun text_parts_loop :: "pyval list \<Rightarrow> string list \<Rightarrow> string list" where
  "text_parts_loop [] text_parts = text_parts"
| "text_parts_loop (block # blocks) text_parts =
     (let text = block_text block
      in if truthy text then text_parts_loop blocks (text_parts @ [py_str text])
         else text_parts_loop blocks text_parts)"

definition empty_result_marker :: string where
  "empty_result_marker = ''(Tool returned an empty result)''"

text \<open>The last part of \<^verbatim>\<open>call_tool\<close>: the text extracted from the result.\<close>

definition extract_text :: "string \<Rightarrow> pyval \<Rightarrow> py_exc + string" where
  "extract_text tool_name' result =
     (case result of
        PDict d \<Rightarrow>
          (let status = dict_get d ''status'' (PStr ''success'');
               content_blocks = dict_get d ''content'' (PList [])
           in case py_iter content_blocks of
                Inl e \<Rightarrow> Inl e
              | Inr blocks \<Rightarrow>
                  (let text_parts = text_parts_loop blocks [];
                       output = (if text_parts \<noteq> [] then py_join NL text_parts
                                 else py_str result)
                   in if status = PStr ''error'' then
                        Inr (''Tool '' @ [CHR 0x27] @ tool_name' @ [CHR 0x27] @
                             '' returned an error:'' @ NL @ output)
                      else Inr (if output \<noteq> [] then output else empty_result_marker)))
      | _ \<Rightarrow> Inr (if truthy result then py_str result else empty_result_marker))"

definition tool_name_required_message :: string where
  "tool_name_required_message =
     ''ERROR: tool_name is required. Use find_tool to discover tool names.''"

definition not_found_message :: "string \<Rightarrow> string \<Rightarrow> string" where
  "not_found_message tool_name' suggestions =
     ''ERROR: Tool '' @ [CHR 0x27] @ tool_name' @ [CHR 0x27] @ '' not found in registry.'' @ NL @
     ''Did you mean: '' @ suggestions @ ''?'' @ NL @
     ''Use find_tool to search for the correct tool name.''"

definition transport_error_message :: "string \<Rightarrow> string \<Rightarrow> string \<Rightarrow> string" where
  "transport_error_message tool_name' cls msg =
     ''ERROR calling '' @ [CHR 0x27] @ tool_name' @ [CHR 0x27] @ '': '' @ cls @ '': '' @ msg @ NL @
     ''The MCP session for this tool may have closed. '' @
     ''Try restarting the agent.''"

text \<open>
  \<^verbatim>\<open>call_tool\<close>. \<open>uid\<close> is the hexadecimal text of the fresh \<^verbatim>\<open>uuid4\<close>. The result is the list
  of calls made on backend sessions, in order, and what the operation returns (\<open>Inr\<close>) or
  the exception that leaves it (\<open>Inl\<close>). The source assigns the stripped name to the
  parameter again: \<open>tool_name0\<close> is the name as passed, \<open>tool_name'\<close> the stripped one.
\<close>

definition call_tool ::
  "decoder \<Rightarrow> session \<Rightarrow> registry \<Rightarrow> string \<Rightarrow> string \<Rightarrow> pyval
     \<Rightarrow> invocation list \<times> (py_exc + string)" where
  "call_tool loads call_tool_sync registry uid tool_name0 arguments =
     (let tool_name' = py_strip tool_name0
      in if tool_name' = [] then ([], Inr tool_name_required_message)
         else
           (case parse_arguments loads arguments of
              Rejected msg \<Rightarrow> ([], Inr msg)
            | ParseRaised e \<Rightarrow> ([], Inl e)
            | Parsed args \<Rightarrow>
                (case get registry tool_name' of
                   None \<Rightarrow>
                     (let similar = search registry tool_name' 3;
                          suggestions = (if similar \<noteq> [] then py_join '', '' (map name similar)
                                         else ''none found'')
                      in ([], Inr (not_found_message tool_name' suggestions)))
                 | Some entry \<Rightarrow>
                     (let client = started_client entry;
                          tool_use_id = ''optimizer-'' @ take 8 uid;
                          call = \<lparr>inv_client = client, inv_tool_use_id = tool_use_id,
                                  inv_name = tool_name', inv_arguments = args\<rparr>
                      in case call_tool_sync client tool_use_id tool_name' args of
                           Raises inst cls msg \<Rightarrow>
                             (if inst then
                                ([call], Inr (transport_error_message tool_name' cls msg))
                              else ([call], Inl (Propagated cls msg)))
                         | Returns result \<Rightarrow> ([call], extract_text tool_name' result)))))"

text \<open>
  \<^verbatim>\<open>find_tool\<close>. \<^verbatim>\<open>json.dumps(schema, indent=2)\<close> is the library's; it is the parameter
  \<open>dumps\<close>.
\<close>

definition render_entry :: "(pyval \<Rightarrow> string) \<Rightarrow> nat \<Rightarrow> entry \<Rightarrow> string" where
  "render_entry dumps i entry =
     ''['' @ decimal_digits i @ ''] '' @ name entry @ ''  (server: '' @ server_name entry @ '')'' @ NL @
     ''    Description : '' @ description entry @ NL @
     ''    Input schema:'' @ NL @ dumps (input_schema entry) @ NL"

definition find_tool :: "(pyval \<Rightarrow> string) \<Rightarrow> registry \<Rightarrow> string \<Rightarrow> int \<Rightarrow> string" where
  "find_tool dumps registry query0 top_k =
     (let query = py_strip query0
      in if query = [] then ''ERROR: query cannot be empty.''
         else
           (let results = search registry query top_k
            in if results = [] then
                 (let servers' = (if py_join '', '' (servers registry) \<noteq> []
                                 then py_join '', '' (servers registry) else ''none'')
                  in ''No tools found matching '' @ [CHR 0x27] @ query @ [CHR 0x27] @ ''.'' @ NL @
                     ''Available servers: '' @ servers' @ NL @
                     ''Try a broader search term.'')
               else
                 py_join NL
                   ((''Found '' @ decimal_digits (length results) @ '' tool(s) matching '' @
                       [CHR 0x27] @ query @ [CHR 0x27] @ '':'' @ NL)
                    # map (\<lambda>(i, entry). render_entry dumps i entry)
                        (zip [1 ..< Suc (length results)] results))))"

section \<open>A sample catalog, sample sessions and a sample decoder\<close>

text \<open>The concrete inputs of the runs below: a Jira backend with two tools, a GitHub backend
  that reuses a raw tool name, two backends whose names meet after stripping, and a backend
  whose server name and description have letters beyond ASCII.\<close>

definition jira_list_issues :: mcp_tool where
  "jira_list_issues = \<lparr>tool_name = ''list_issues'', spec_description = Some ''list jira issues'',
     spec_inputSchema = None\<rparr>"

definition jira_get_issue :: mcp_tool where
  "jira_get_issue = \<lparr>tool_name = ''get_issue'', spec_description = Some ''Get a Jira issue by key'',
     spec_inputSchema = Some [(''json'', PDict [(''type'', PStr ''object'')])]\<rparr>"

definition github_get_issue :: mcp_tool where
  "github_get_issue = \<lparr>tool_name = ''get_issue'', spec_description = Some ''Fetch a GitHub issue'',
     spec_inputSchema = None\<rparr>"

definition hub_sync :: mcp_tool where
  "hub_sync = \<lparr>tool_name = ''sync '', spec_description = Some ''Synchronise the hub'',
     spec_inputSchema = None\<rparr>"

definition ops_hub_sync :: mcp_tool where
  "ops_hub_sync = \<lparr>tool_name = ''hub_sync'', spec_description = Some ''Trigger a hub sync job'',
     spec_inputSchema = None\<rparr>"

definition jira_batches :: "(string \<times> client \<times> mcp_tool list) list" where
  "jira_batches = [(''Jira'', 1, [jira_list_issues, jira_get_issue])]"

definition hub_batches :: "(string \<times> client \<times> mcp_tool list) list" where
  "hub_batches = [(''Hub'', 1, [hub_sync]), (''Ops'', 2, [ops_hub_sync])]"

definition ecole_menu :: mcp_tool where
  "ecole_menu = \<lparr>tool_name = ''menu'', spec_description = Some (''Le caf'' @ [CHR 0xE9]),
     spec_inputSchema = None\<rparr>"

definition ecole_registry :: registry where
  "ecole_registry = fst (register empty_registry ([CHR 0xC9] @ ''COLE'') 3 [ecole_menu])"

definition entry_ecole_menu :: entry where
  "entry_ecole_menu = \<lparr>name = [CHR 0xE9] @ ''cole_menu'', description = ''Le caf'' @ [CHR 0xE9],
     input_schema = PDict [], server_name = [CHR 0xC9] @ ''COLE'', started_client = 3\<rparr>"

definition jira_registry :: registry where
  "jira_registry = fst (register empty_registry ''Jira'' 1 [jira_list_issues, jira_get_issue])"

definition two_backend_registry :: registry where
  "two_backend_registry = fst (register jira_registry ''GitHub'' 2 [github_get_issue])"

definition entry_list_issues :: entry where
  "entry_list_issues = \<lparr>name = ''jira_list_issues'', description = ''list jira issues'',
     input_schema = PDict [], server_name = ''Jira'', started_client = 1\<rparr>"

definition entry_get_issue :: entry where
  "entry_get_issue = \<lparr>name = ''jira_get_issue'', description = ''Get a Jira issue by key'',
     input_schema = PDict [(''type'', PStr ''object'')], server_name = ''Jira'',
     started_client = 1\<rparr>"

definition entry_github_get_issue :: entry where
  "entry_github_get_issue = \<lparr>name = ''github_get_issue'', description = ''Fetch a GitHub issue'',
     input_schema = PDict [], server_name = ''GitHub'', started_client = 2\<rparr>"

text \<open>A decoder for the concrete runs. It agrees with \<^verbatim>\<open>json.loads\<close> on the text \<^verbatim>\<open>{}\<close>, on the
  empty text and on every text whose first character is neither JSON whitespace nor the
  start of a JSON value; the runs below pass it no other text, and no general theorem
  depends on it.\<close>

definition sample_loads :: decoder where
  "sample_loads s =
     (if s = ''{}'' then Decoded (PDict [])
      else JSONDecodeError ''Expecting value: line 1 column 1 (char 0)'')"

definition sample_uid :: string where
  "sample_uid = ''3f2a9c1e5b7d4e6f8a0b1c2d3e4f5a6b''"

definition ok_result :: pyval where
  "ok_result = PDict [(''status'', PStr ''success''),
                      (''content'', PList [PDict [(''text'', PStr ''ok'')]])]"

definition mixed_result :: pyval where
  "mixed_result = PDict [(''toolUseId'', PStr ''optimizer-3f2a9c1e''),
     (''content'', PList [PDict [(''text'', PStr ''line one'')],
                          PObj ''TextContent'' [(''text'', PStr ''line two'')],
                          PDict [(''text'', PStr [])],
                          PDict [(''image'', PNone)]])]"

definition ok_session :: session where
  "ok_session client tool_use_id nm arguments = Returns ok_result"

definition mixed_session :: session where
  "mixed_session client tool_use_id nm arguments = Returns mixed_result"

definition empty_map_session :: session where
  "empty_map_session client tool_use_id nm arguments = Returns (PDict [])"

definition closed_session :: session where
  "closed_session client tool_use_id nm arguments = Raises True ''RuntimeError'' ''session closed''"

definition interrupted_session :: session where
  "interrupted_session client tool_use_id nm arguments = Raises False ''KeyboardInterrupt'' []"

definition get_issue_call :: "pyval \<Rightarrow> invocation" where
  "get_issue_call args = \<lparr>inv_client = 1, inv_tool_use_id = ''optimizer-3f2a9c1e'',
     inv_name = ''get_issue'', inv_arguments = args\<rparr>"

section \<open>Properties of the registry\<close>

lemma find_append_case:
  "find P (xs @ ys) = (case find P xs of None \<Rightarrow> find P ys | Some x \<Rightarrow> Some x)"
  by (induction xs) auto

lemma find_Some_in: "find P xs = Some x \<Longrightarrow> x \<in> set xs \<and> P x"
  by (induction xs) (auto split: if_splits)

lemma find_None_none: "find P xs = None \<Longrightarrow> x \<in> set xs \<Longrightarrow> \<not> P x"
  by (induction xs) (auto split: if_splits)

text \<open>What the loop of \<^verbatim>\<open>register\<close> leaves behind: the list grows at its end, and a key of
  the index holds the entry of the last tool of the batch with that raw name.\<close>

lemma register_loop_eq:
  "register_loop srv cl ts (r, n) =
     (\<lparr>tools = tools r @ map (make_entry srv cl) ts,
       index = (\<lambda>k. case find (\<lambda>t. tool_name t = k) (rev ts) of
                        Some t \<Rightarrow> Some (make_entry srv cl t)
                      | None \<Rightarrow> index r k)\<rparr>,
      n + length ts)"
proof (induction ts arbitrary: r n)
  case Nil
  then show ?case by simp
next
  case (Cons t ts)
  show ?case
    by (simp add: Cons.IH Let_def find_append_case fun_eq_iff split: option.splits)
qed

lemma register_eq:
  "register r srv cl ts =
     (\<lparr>tools = tools r @ map (make_entry srv cl) ts,
       index = (\<lambda>k. case find (\<lambda>t. tool_name t = k) (rev ts) of
                        Some t \<Rightarrow> Some (make_entry srv cl t)
                      | None \<Rightarrow> index r k)\<rparr>,
      length ts)"
  by (simp add: register_def register_loop_eq)

lemma name_make_entry: "name (make_entry srv cl t) = py_lower srv @ ''_'' @ tool_name t"
  by (simp add: make_entry_def Let_def)

lemma find_by_name:
  assumes "t \<in> set ts"
  shows "\<exists>t'\<in>set ts. tool_name t' = tool_name t \<and>
           find (\<lambda>u. tool_name u = tool_name t) (rev ts) = Some t'"
proof (cases "find (\<lambda>u. tool_name u = tool_name t) (rev ts)")
  case None
  from find_None_none[OF None, of t] assms show ?thesis by simp
next
  case (Some t')
  from find_Some_in[OF Some] Some show ?thesis by auto
qed

lemma get_register:
  "get (fst (register r srv cl ts)) k =
     (case find (\<lambda>t. tool_name t = k) (rev ts) of
        Some t \<Rightarrow> Some (make_entry srv cl t)
      | None \<Rightarrow> get r k)"
  by (simp add: register_eq get_def split: option.splits)

lemma tools_register:
  "tools (fst (register r srv cl ts)) = tools r @ map (make_entry srv cl) ts"
  by (simp add: register_eq)

lemma dom_index_register:
  "dom (index (fst (register r srv cl ts))) = dom (index r) \<union> tool_name ` set ts"
proof -
  have "(k \<in> dom (index (fst (register r srv cl ts))))
      = (k \<in> dom (index r) \<union> tool_name ` set ts)" for k
  proof (cases "find (\<lambda>t. tool_name t = k) (rev ts)")
    case None
    then have "k \<notin> tool_name ` set ts" using find_None_none[OF None] by auto
    with None show ?thesis by (simp add: register_eq dom_def)
  next
    case (Some t)
    then have "k \<in> tool_name ` set ts" using find_Some_in[OF Some] by auto
    with Some show ?thesis by (simp add: register_eq dom_def)
  qed
  then show ?thesis by blast
qed

lemma dom_index_register_all:
  "dom (index (register_all r batches)) = dom (index r) \<union> set (registered_raw_names batches)"
proof (induction batches arbitrary: r)
  case Nil
  show ?case by (simp add: registered_raw_names_def)
next
  case (Cons b batches)
  obtain srv cl ts where b: "b = (srv, cl, ts)" by (cases b)
  show ?case
    using Cons.IH[of "fst (register r srv cl ts)"]
    by (auto simp: b dom_index_register registered_raw_names_def)
qed

lemma set_tools_register_all:
  "set (tools (register_all r batches)) =
     set (tools r) \<union>
     {make_entry srv cl t | srv cl ts t. (srv, cl, ts) \<in> set batches \<and> t \<in> set ts}"
proof (induction batches arbitrary: r)
  case Nil
  show ?case by simp
next
  case (Cons b batches)
  obtain srv cl ts where b: "b = (srv, cl, ts)" by (cases b)
  show ?case
    using Cons.IH[of "fst (register r srv cl ts)"]
    by (auto simp: b tools_register)
qed

section \<open>Properties of the text primitives\<close>

text \<open>The three classes, code point by code point: the tables of \<^verbatim>\<open>str.isspace\<close>, of \<^verbatim>\<open>\w\<close> and
  of \<^verbatim>\<open>str.lower\<close> on \<open>U+0000\<close> to \<open>U+00FF\<close>.\<close>

lemma is_space_code_points:
  "filter is_space Enum.enum
     = [CHR 0x09, CHR 0x0A, CHR 0x0B, CHR 0x0C, CHR 0x0D, CHR 0x1C, CHR 0x1D, CHR 0x1E, CHR 0x1F,
        CHR 0x20, CHR 0x85, CHR 0xA0]"
  by code_simp

lemma is_word_char_code_points:
  "filter is_word_char Enum.enum
     = ''0123456789ABCDEFGHIJKLMNOPQRSTUVWXYZ_abcdefghijklmnopqrstuvwxyz'' @
       [CHR 0xAA, CHR 0xB2, CHR 0xB3, CHR 0xB5, CHR 0xB9, CHR 0xBA, CHR 0xBC, CHR 0xBD,
        CHR 0xBE, CHR 0xC0, CHR 0xC1, CHR 0xC2, CHR 0xC3, CHR 0xC4, CHR 0xC5, CHR 0xC6,
        CHR 0xC7, CHR 0xC8, CHR 0xC9, CHR 0xCA, CHR 0xCB, CHR 0xCC, CHR 0xCD, CHR 0xCE,
        CHR 0xCF, CHR 0xD0, CHR 0xD1, CHR 0xD2, CHR 0xD3, CHR 0xD4, CHR 0xD5, CHR 0xD6,
        CHR 0xD8, CHR 0xD9, CHR 0xDA, CHR 0xDB, CHR 0xDC, CHR 0xDD, CHR 0xDE, CHR 0xDF,
        CHR 0xE0, CHR 0xE1, CHR 0xE2, CHR 0xE3, CHR 0xE4, CHR 0xE5, CHR 0xE6, CHR 0xE7,
        CHR 0xE8, CHR 0xE9, CHR 0xEA, CHR 0xEB, CHR 0xEC, CHR 0xED, CHR 0xEE, CHR 0xEF,
        CHR 0xF0, CHR 0xF1, CHR 0xF2, CHR 0xF3, CHR 0xF4, CHR 0xF5, CHR 0xF6, CHR 0xF8,
        CHR 0xF9, CHR 0xFA, CHR 0xFB, CHR 0xFC, CHR 0xFD, CHR 0xFE, CHR 0xFF]"
  by code_simp

lemma lower_char_code_points:
  "filter (\<lambda>c. lower_char c \<noteq> c) Enum.enum
     = ''ABCDEFGHIJKLMNOPQRSTUVWXYZ'' @
       [CHR 0xC0, CHR 0xC1, CHR 0xC2, CHR 0xC3, CHR 0xC4, CHR 0xC5, CHR 0xC6, CHR 0xC7,
        CHR 0xC8, CHR 0xC9, CHR 0xCA, CHR 0xCB, CHR 0xCC, CHR 0xCD, CHR 0xCE, CHR 0xCF,
        CHR 0xD0, CHR 0xD1, CHR 0xD2, CHR 0xD3, CHR 0xD4, CHR 0xD5, CHR 0xD6, CHR 0xD8,
        CHR 0xD9, CHR 0xDA, CHR 0xDB, CHR 0xDC, CHR 0xDD, CHR 0xDE]"
  and "map lower_char
         (''ABCDEFGHIJKLMNOPQRSTUVWXYZ'' @
       [CHR 0xC0, CHR 0xC1, CHR 0xC2, CHR 0xC3, CHR 0xC4, CHR 0xC5, CHR 0xC6, CHR 0xC7,
        CHR 0xC8, CHR 0xC9, CHR 0xCA, CHR 0xCB, CHR 0xCC, CHR 0xCD, CHR 0xCE, CHR 0xCF,
        CHR 0xD0, CHR 0xD1, CHR 0xD2, CHR 0xD3, CHR 0xD4, CHR 0xD5, CHR 0xD6, CHR 0xD8,
        CHR 0xD9, CHR 0xDA, CHR 0xDB, CHR 0xDC, CHR 0xDD, CHR 0xDE])
     = ''abcdefghijklmnopqrstuvwxyz'' @
       [CHR 0xE0, CHR 0xE1, CHR 0xE2, CHR 0xE3, CHR 0xE4, CHR 0xE5, CHR 0xE6, CHR 0xE7,
        CHR 0xE8, CHR 0xE9, CHR 0xEA, CHR 0xEB, CHR 0xEC, CHR 0xED, CHR 0xEE, CHR 0xEF,
        CHR 0xF0, CHR 0xF1, CHR 0xF2, CHR 0xF3, CHR 0xF4, CHR 0xF5, CHR 0xF6, CHR 0xF8,
        CHR 0xF9, CHR 0xFA, CHR 0xFB, CHR 0xFC, CHR 0xFD, CHR 0xFE]"
  by code_simp+

lemma py_lower_nth:
  "length (py_lower s) = length s
   \<and> (\<forall>i<length s. (of_char (py_lower s ! i) :: nat) =
         (let n = of_char (s ! i)
          in if (0x41 \<le> n \<and> n \<le> 0x5A) \<or> (0xC0 \<le> n \<and> n \<le> 0xDE \<and> n \<noteq> 0xD7) then n + 32 else n))"
  by (auto simp: py_lower_def lower_char_def Let_def)

lemma lower_char_space: "is_space c \<Longrightarrow> lower_char c = c"
  by (auto simp: is_space_def lower_char_def Let_def)

lemma space_not_word: "is_space c \<Longrightarrow> \<not> is_word_char c"
  by (auto simp: is_space_def is_word_char_def Let_def)

lemma findall_w_from_no_word:
  "\<forall>c\<in>set s. \<not> is_word_char c \<Longrightarrow> findall_w_from [] s = []"
  by (induction s) auto

text \<open>An empty or whitespace-only query has no word token.\<close>

lemma whitespace_query_no_words:
  assumes "\<forall>c\<in>set query. is_space c"
  shows "set (findall_w (py_lower query)) = {}"
proof -
  have "py_lower query = query"
    using assms by (simp add: py_lower_def lower_char_space map_idI)
  moreover have "\<forall>c\<in>set query. \<not> is_word_char c"
    using assms space_not_word by blast
  ultimately show ?thesis
    by (simp add: findall_w_def findall_w_from_no_word)
qed

lemma py_join_Cons: "py_join sep (x # xs) = x @ concat (map (\<lambda>t. sep @ t) xs)"
  by (induction xs arbitrary: x) auto

lemma py_join_mem: "x \<in> set xs \<Longrightarrow> \<exists>pre post. py_join sep xs = pre @ x @ post"
proof (induction xs)
  case Nil
  then show ?case by simp
next
  case (Cons y ys)
  show ?case
  proof (cases "x = y")
    case True
    have "py_join sep (y # ys) = [] @ x @ concat (map (\<lambda>t. sep @ t) ys)"
      by (simp add: py_join_Cons True)
    then show ?thesis by (intro exI)
  next
    case False
    with Cons.prems have m: "x \<in> set ys" by simp
    from Cons.IH[OF m] obtain pre post where p: "py_join sep ys = pre @ x @ post" by (elim exE)
    from m obtain z zs where ys: "ys = z # zs" by (cases ys) auto
    have "py_join sep (y # ys) = (y @ sep @ pre) @ x @ post"
      using p by (simp add: ys)
    then show ?thesis by (intro exI)
  qed
qed

lemma repr_char_plain:
  assumes "0x20 \<le> (of_char c :: nat)" and "(of_char c :: nat) < 0x7F"
    and "c \<noteq> CHR 0x27" and "c \<noteq> CHR 0x5C"
  shows "repr_char (CHR 0x27) c = [c]"
proof -
  have "c \<noteq> CHR 0x09" "c \<noteq> CHR 0x0A" "c \<noteq> CHR 0x0D" "c \<noteq> CHR 0xAD"
    using assms(1,2) by auto
  then show ?thesis
    using assms by (simp add: repr_char_def)
qed

lemma repr_str_plain:
  assumes "\<forall>c\<in>set s. 0x20 \<le> (of_char c :: nat) \<and> (of_char c :: nat) < 0x7F
             \<and> c \<noteq> CHR 0x27 \<and> c \<noteq> CHR 0x5C"
  shows "repr_str s = [CHR 0x27] @ s @ [CHR 0x27]"
proof -
  have "concat (map (repr_char (CHR 0x27)) s) = s"
    using assms by (induction s) (simp_all add: repr_char_plain)
  moreover have "CHR 0x27 \<notin> set s" using assms by blast
  ultimately show ?thesis by (simp add: repr_str_def Let_def)
qed

lemma dropWhile_all: "\<forall>c\<in>set s. P c \<Longrightarrow> dropWhile P s = []"
  by (induction s) auto

lemma py_strip_whitespace: "\<forall>c\<in>set s. is_space c \<Longrightarrow> py_strip s = []"
  by (simp add: py_strip_def dropWhile_all)

lemma py_strip_nonblank:
  assumes "c \<in> set s" and "\<not> is_space c"
  shows "py_strip s \<noteq> []"
proof -
  have ne: "dropWhile is_space s \<noteq> []"
    using assms by (auto simp: dropWhile_eq_Nil_conv)
  then have "\<not> is_space (hd (dropWhile is_space s))"
    by (rule hd_dropWhile)
  moreover have "hd (dropWhile is_space s) \<in> set (rev (dropWhile is_space s))"
    using ne by simp
  ultimately have "dropWhile is_space (rev (dropWhile is_space s)) \<noteq> []"
    by (auto simp: dropWhile_eq_Nil_conv)
  then show ?thesis by (simp add: py_strip_def)
qed

lemma py_strip_qualified: "py_strip (py_lower srv @ ''_'' @ raw) \<noteq> []"
  by (rule py_strip_nonblank[of "CHR ''_''"]) (simp_all add: is_space_def)

lemma py_strip_braces: "py_strip ''{}'' = ''{}''"
  by (simp add: py_strip_def is_space_def)

section \<open>Properties of the search\<close>

lemma score_loop_eq:
  "score_loop w es acc = acc @ map (\<lambda>e. (score w e, e)) (filter (\<lambda>e. score w e > 0) es)"
  by (induction es arbitrary: acc) (auto simp: Let_def)

lemma insort_key_map:
  "insort_key f (g x) (map g xs) = map g (insort_key (\<lambda>y. f (g y)) x xs)"
  by (induction xs) auto

lemma sort_key_map:
  "sort_key f (map g xs) = map g (sort_key (\<lambda>y. f (g y)) xs)"
  by (induction xs) (auto simp: insort_key_map)

lemma ranked_eq:
  "ranked w es = sort_key (\<lambda>e. - score w e) (filter (\<lambda>e. score w e > 0) es)"
  by (simp add: ranked_def sort_by_score_desc_def score_loop_eq sort_key_map comp_def)

lemma score_nonneg: "0 \<le> score w e"
  by (simp add: score_def Let_def)

lemma search_nonempty_words:
  "set (findall_w (py_lower q)) \<noteq> {} \<Longrightarrow>
   search r q k = py_slice_upto (ranked (set (findall_w (py_lower q))) (tools r)) k"
  by (simp add: search_def Let_def ranked_def py_slice_upto_def take_map)

lemma set_py_slice_upto: "set (py_slice_upto xs k) \<subseteq> set xs"
  by (auto simp: py_slice_upto_def dest: in_set_takeD)

lemma sorted_desc_ranked: "sorted_wrt (\<lambda>a b. score w b \<le> score w a) (ranked w es)"
proof -
  have "sorted (map (\<lambda>e. - score w e) (ranked w es))"
    unfolding ranked_eq by (rule sorted_sort_key)
  then show ?thesis
    by (simp add: sorted_map)
qed

lemma set_ranked: "set (ranked w es) = {e \<in> set es. score w e \<noteq> 0}"
  using score_nonneg[of w] by (auto simp: ranked_eq less_le)

lemma stable_ranked:
  assumes "s \<noteq> 0"
  shows "filter (\<lambda>e. score w e = s) (ranked w es) = filter (\<lambda>e. score w e = s) es"
proof -
  have "filter (\<lambda>e. score w e = s) (ranked w es)
      = filter (\<lambda>e. - score w e = - s)
          (sort_key (\<lambda>e. - score w e) (filter (\<lambda>e. score w e > 0) es))"
    by (simp add: ranked_eq)
  also have "\<dots> = filter (\<lambda>e. - score w e = - s) (filter (\<lambda>e. score w e > 0) es)"
    by (rule sort_key_stable)
  also have "\<dots> = filter (\<lambda>e. score w e = s) es"
    using assms score_nonneg[of w] by (auto simp: less_le intro!: filter_cong)
  finally show ?thesis .
qed

section \<open>Properties of the dispatcher\<close>

lemma call_tool_rejected:
  "py_strip tool_name0 \<noteq> [] \<Longrightarrow> parse_arguments loads arguments = Rejected msg \<Longrightarrow>
   call_tool loads sess registry uid tool_name0 arguments = ([], Inr msg)"
  by (simp add: call_tool_def)

lemma call_tool_not_found:
  "py_strip tool_name0 \<noteq> [] \<Longrightarrow> parse_arguments loads arguments = Parsed args \<Longrightarrow>
   get registry (py_strip tool_name0) = None \<Longrightarrow>
   call_tool loads sess registry uid tool_name0 arguments =
     ([], Inr (not_found_message (py_strip tool_name0)
            (if search registry (py_strip tool_name0) 3 \<noteq> []
             then py_join '', '' (map name (search registry (py_strip tool_name0) 3))
             else ''none found'')))"
  by (simp add: call_tool_def Let_def)

lemma call_tool_unregistered_no_call:
  assumes "get registry (py_strip tool_name0) = None"
  shows "fst (call_tool loads sess registry uid tool_name0 arguments) = []"
  using assms by (simp add: call_tool_def Let_def split: parse_outcome.splits)

text \<open>The run of \<^verbatim>\<open>call_tool\<close> once the name is not blank, the arguments are parsed and the
  tool is found: one call on the session of the entry, then the handler or the extraction.\<close>

lemma call_tool_dispatch:
  "py_strip tool_name0 \<noteq> [] \<Longrightarrow> parse_arguments loads arguments = Parsed args \<Longrightarrow>
   get registry (py_strip tool_name0) = Some e \<Longrightarrow>
   call_tool loads sess registry uid tool_name0 arguments =
     ([\<lparr>inv_client = started_client e, inv_tool_use_id = ''optimizer-'' @ take 8 uid,
        inv_name = py_strip tool_name0, inv_arguments = args\<rparr>],
      (case sess (started_client e) (''optimizer-'' @ take 8 uid) (py_strip tool_name0) args of
         Raises inst cls msg \<Rightarrow>
           (if inst then Inr (transport_error_message (py_strip tool_name0) cls msg)
            else Inl (Propagated cls msg))
       | Returns result \<Rightarrow> extract_text (py_strip tool_name0) result))"
  by (simp add: call_tool_def Let_def split: call_outcome.splits)

lemma call_tool_same_parse:
  "parse_arguments loads a = parse_arguments loads b \<Longrightarrow>
   call_tool loads sess registry uid tool_name0 a = call_tool loads sess registry uid tool_name0 b"
  by (simp add: call_tool_def Let_def)

lemma parse_arguments_dict: "parse_arguments loads (PDict d) = Parsed (PDict d)"
  by (simp add: parse_arguments_def)

lemma parse_arguments_str:
  "parse_arguments loads (PStr s) =
     (case loads (py_strip (if s = [] then ''{}'' else s)) of
        Decoded args \<Rightarrow> Parsed args
      | JSONDecodeError exc \<Rightarrow>
          Rejected (invalid_arguments_message (py_strip (if s = [] then ''{}'' else s)) exc)
      | LoadsRaised cls msg \<Rightarrow> ParseRaised (Propagated cls msg))"
  by (simp add: parse_arguments_def Let_def)

lemma parse_arguments_falsy:
  "\<not> truthy arguments \<Longrightarrow> \<forall>d. arguments \<noteq> PDict d \<Longrightarrow>
   parse_arguments loads arguments = parse_arguments loads (PStr ''{}'')"
  by (cases arguments) (simp_all add: parse_arguments_def)

lemma text_parts_loop_eq:
  "text_parts_loop blocks acc = acc @ map py_str (filter truthy (map block_text blocks))"
  by (induction blocks arbitrary: acc) (auto simp: Let_def)

lemma extract_text_dict:
  assumes "py_iter (dict_get d ''content'' (PList [])) = Inr blocks"
  shows "extract_text tn (PDict d) =
     (let text_parts = map py_str (filter truthy (map block_text blocks));
          output = (if text_parts \<noteq> [] then py_join NL text_parts else py_str (PDict d))
      in if dict_get d ''status'' (PStr ''success'') = PStr ''error'' then
           Inr (''Tool '' @ [CHR 0x27] @ tn @ [CHR 0x27] @ '' returned an error:'' @ NL @ output)
         else Inr (if output \<noteq> [] then output else empty_result_marker))"
  using assms by (simp add: extract_text_def Let_def text_parts_loop_eq)

text \<open>When a dictionary result yields no text, the output is the text of the dictionary,
  which is never empty: the marker for an empty result cannot be returned for a dictionary
  without text.\<close>

lemma extract_text_no_text_never_marker:
  assumes "py_iter (dict_get d ''content'' (PList [])) = Inr blocks"
    and "filter truthy (map block_text blocks) = []"
    and "dict_get d ''status'' (PStr ''success'') \<noteq> PStr ''error''"
  shows "extract_text tn (PDict d) = Inr (py_repr (PDict d)) \<and> py_repr (PDict d) \<noteq> []"
  using extract_text_dict[OF assms(1), of tn] assms(2,3)
  by (simp add: Let_def py_str_def)

section \<open>Properties of the rendering\<close>

text \<open>Every entry that \<^verbatim>\<open>search\<close> returns is shown by \<^verbatim>\<open>find_tool\<close> under its stored name.\<close>

lemma numbered_mem:
  assumes "e \<in> set res"
  shows "\<exists>i. (i, e) \<in> set (zip [1 ..< Suc (length res)] res)"
proof -
  from assms obtain j where j: "j < length res" "res ! j = e"
    by (auto simp: in_set_conv_nth)
  have "zip [1 ..< Suc (length res)] res ! j = (Suc j, e)"
    using j by (simp del: upt_Suc)
  moreover have "j < length (zip [1 ..< Suc (length res)] res)"
    using j by (simp del: upt_Suc)
  ultimately have "(Suc j, e) \<in> set (zip [1 ..< Suc (length res)] res)"
    by (metis nth_mem)
  then show ?thesis by (rule exI)
qed

lemma find_tool_shows_name:
  assumes "py_strip q \<noteq> []" and "e \<in> set (search R (py_strip q) k)"
  shows "\<exists>i pre rest. find_tool dumps R q k
           = pre @ ''['' @ decimal_digits i @ ''] '' @ name e @ ''  (server: '' @ server_name e
               @ '')'' @ rest"
proof -
  let ?res = "search R (py_strip q) k"
  from numbered_mem[OF assms(2)] obtain i where
    "(i, e) \<in> set (zip [1 ..< Suc (length ?res)] ?res)" by (elim exE)
  then have "(case (i, e) of (i, entry) \<Rightarrow> render_entry dumps i entry)
      \<in> (\<lambda>(i, entry). render_entry dumps i entry) ` set (zip [1 ..< Suc (length ?res)] ?res)"
    by (rule imageI)
  then have "render_entry dumps i e
      \<in> set (map (\<lambda>(i, entry). render_entry dumps i entry) (zip [1 ..< Suc (length ?res)] ?res))"
    by (simp only: set_map prod.case)
  then have "render_entry dumps i e
      \<in> set ((''Found '' @ decimal_digits (length ?res) @ '' tool(s) matching '' @
                 [CHR 0x27] @ py_strip q @ [CHR 0x27] @ '':'' @ NL)
              # map (\<lambda>(i, entry). render_entry dumps i entry) (zip [1 ..< Suc (length ?res)] ?res))"
    by (simp only: list.set insert_iff simp_thms)
  from py_join_mem[OF this, of NL] obtain pre post where
    "py_join NL ((''Found '' @ decimal_digits (length ?res) @ '' tool(s) matching '' @
                 [CHR 0x27] @ py_strip q @ [CHR 0x27] @ '':'' @ NL)
              # map (\<lambda>(i, entry). render_entry dumps i entry) (zip [1 ..< Suc (length ?res)] ?res))
      = pre @ render_entry dumps i e @ post"
    by (elim exE)
  moreover have "?res \<noteq> []" using assms(2) by auto
  ultimately have "find_tool dumps R q k = pre @ render_entry dumps i e @ post"
    using assms(1) by (simp add: find_tool_def Let_def)
  then have "find_tool dumps R q k
      = pre @ ''['' @ decimal_digits i @ ''] '' @ name e @ ''  (server: '' @ server_name e @ '')''
          @ (NL @ ''    Description : '' @ description e @ NL @ ''    Input schema:'' @ NL
             @ dumps (input_schema e) @ NL @ post)"
    by (simp add: render_entry_def)
  then show ?thesis by (intro exI)
qed

section \<open>Facts about the sample inputs\<close>

lemma tools_jira_registry: "tools jira_registry = [entry_list_issues, entry_get_issue]"
  by code_simp

lemma get_jira_get_issue: "get jira_registry (py_strip ''get_issue'') = Some entry_get_issue"
  by code_simp

lemma strip_get_issue: "py_strip ''get_issue'' = ''get_issue''"
  by code_simp

lemma get_issue_nonblank: "py_strip ''get_issue'' \<noteq> []"
  by code_simp

lemma parse_sample_braces: "parse_arguments sample_loads (PStr ''{}'') = Parsed (PDict [])"
  by code_simp

lemma get_issue_call_eq:
  "\<lparr>inv_client = started_client entry_get_issue,
    inv_tool_use_id = ''optimizer-'' @ take 8 sample_uid,
    inv_name = ''get_issue'', inv_arguments = args\<rparr> = get_issue_call args"
  by (simp add: get_issue_call_def entry_get_issue_def sample_uid_def)

section \<open>The claims\<close>

text \<open>
  C1. A tool is shown by \<^verbatim>\<open>find_tool\<close> under its qualified name, while the index is keyed by
  raw names. For every tool registered by a sequence of \<^verbatim>\<open>register\<close> calls whose qualified
  name differs from every registered raw name: the entry is in the tool list under the
  qualified name, every \<^verbatim>\<open>find_tool\<close> whose search returns the entry shows it as
  \<^verbatim>\<open>[i] qualified  (server: srv)\<close>, and \<^verbatim>\<open>get\<close> of the qualified name is absent. \<^verbatim>\<open>call_tool\<close>
  looks up the stripped name: when the stripped qualified name differs from every
  registered raw name as well, \<^verbatim>\<open>call_tool\<close> with the qualified name calls no session, and
  with arguments that parse it returns the tool-not-found message with the suggestions of
  \<^verbatim>\<open>search(name, 3)\<close>.
\<close>

theorem qualified_name_not_resolved:
  assumes "(srv, cl, ts) \<in> set batches" and "t \<in> set ts"
    and "qualified = py_lower srv @ ''_'' @ tool_name t"
    and "R = register_all empty_registry batches"
    and "qualified \<notin> set (registered_raw_names batches)"
  shows "make_entry srv cl t \<in> set (tools R) \<and> name (make_entry srv cl t) = qualified
     \<and> (\<forall>dumps query top_k.
           py_strip query \<noteq> [] \<and> make_entry srv cl t \<in> set (search R (py_strip query) top_k) \<longrightarrow>
           (\<exists>i pre rest. find_tool dumps R query top_k
              = pre @ ''['' @ decimal_digits i @ ''] '' @ qualified @ ''  (server: '' @ srv @ '')''
                  @ rest))
     \<and> get R qualified = None
     \<and> (py_strip qualified \<notin> set (registered_raw_names batches) \<longrightarrow>
          fst (call_tool loads sess R uid qualified arguments) = []
          \<and> (\<forall>args. parse_arguments loads arguments = Parsed args \<longrightarrow>
                call_tool loads sess R uid qualified arguments
                  = ([], Inr (''ERROR: Tool '' @ [CHR 0x27] @ py_strip qualified @ [CHR 0x27]
                              @ '' not found in registry.'' @ [CHR 0x0A]
                              @ ''Did you mean: ''
                              @ (if search R (py_strip qualified) 3 \<noteq> []
                                 then py_join '', '' (map name (search R (py_strip qualified) 3))
                                 else ''none found'')
                              @ ''?'' @ [CHR 0x0A]
                              @ ''Use find_tool to search for the correct tool name.''))))"
proof -
  have d: "dom (index R) = set (registered_raw_names batches)"
    by (simp add: assms(4) dom_index_register_all empty_registry_def)
  have 1: "make_entry srv cl t \<in> set (tools R)"
    using assms(1,2) by (auto simp: assms(4) set_tools_register_all)
  have 2: "name (make_entry srv cl t) = qualified"
    by (simp add: assms(3) name_make_entry)
  have sv: "server_name (make_entry srv cl t) = srv"
    by (simp add: make_entry_def Let_def)
  have 3: "get R qualified = None"
    using assms(5) d by (auto simp: get_def)
  have 4: "\<forall>dumps query top_k.
           py_strip query \<noteq> [] \<and> make_entry srv cl t \<in> set (search R (py_strip query) top_k) \<longrightarrow>
           (\<exists>i pre rest. find_tool dumps R query top_k
              = pre @ ''['' @ decimal_digits i @ ''] '' @ qualified @ ''  (server: '' @ srv @ '')''
                  @ rest)"
  proof (intro allI impI)
    fix dumps query top_k
    assume a: "py_strip query \<noteq> [] \<and> make_entry srv cl t \<in> set (search R (py_strip query) top_k)"
    then have "py_strip query \<noteq> []"
      and "make_entry srv cl t \<in> set (search R (py_strip query) top_k)"
      by (rule conjunct1, rule conjunct2)
    from find_tool_shows_name[OF this, of dumps]
    show "\<exists>i pre rest. find_tool dumps R query top_k
              = pre @ ''['' @ decimal_digits i @ ''] '' @ qualified @ ''  (server: '' @ srv @ '')''
                  @ rest"
      by (simp only: 2 sv)
  qed
  have n: "py_strip qualified \<noteq> []"
    unfolding assms(3) by (rule py_strip_qualified)
  have 5: "py_strip qualified \<notin> set (registered_raw_names batches) \<longrightarrow>
          fst (call_tool loads sess R uid qualified arguments) = []
          \<and> (\<forall>args. parse_arguments loads arguments = Parsed args \<longrightarrow>
                call_tool loads sess R uid qualified arguments
                  = ([], Inr (''ERROR: Tool '' @ [CHR 0x27] @ py_strip qualified @ [CHR 0x27]
                              @ '' not found in registry.'' @ [CHR 0x0A]
                              @ ''Did you mean: ''
                              @ (if search R (py_strip qualified) 3 \<noteq> []
                                 then py_join '', '' (map name (search R (py_strip qualified) 3))
                                 else ''none found'')
                              @ ''?'' @ [CHR 0x0A]
                              @ ''Use find_tool to search for the correct tool name.'')))"
  proof (intro impI conjI allI)
    assume "py_strip qualified \<notin> set (registered_raw_names batches)"
    with d have g: "get R (py_strip qualified) = None"
      by (auto simp: get_def)
    show "fst (call_tool loads sess R uid qualified arguments) = []"
      by (rule call_tool_unregistered_no_call[OF g])
    fix args assume "parse_arguments loads arguments = Parsed args"
    from call_tool_not_found[OF n this g, of sess uid]
    show "call_tool loads sess R uid qualified arguments
                  = ([], Inr (''ERROR: Tool '' @ [CHR 0x27] @ py_strip qualified @ [CHR 0x27]
                              @ '' not found in registry.'' @ [CHR 0x0A]
                              @ ''Did you mean: ''
                              @ (if search R (py_strip qualified) 3 \<noteq> []
                                 then py_join '', '' (map name (search R (py_strip qualified) 3))
                                 else ''none found'')
                              @ ''?'' @ [CHR 0x0A]
                              @ ''Use find_tool to search for the correct tool name.''))"
      by (simp add: not_found_message_def NL_def)
  qed
  from 1 2 4 3 5 show ?thesis by (intro conjI)
qed

theorem qualified_name_not_resolved_witness:
  "''jira_get_issue'' \<notin> set (registered_raw_names jira_batches)
   \<and> py_strip ''jira_get_issue'' \<notin> set (registered_raw_names jira_batches)
   \<and> entry_get_issue \<in> set (tools jira_registry)
   \<and> name entry_get_issue = ''jira_get_issue''
   \<and> (\<forall>dumps. \<exists>i pre rest. find_tool dumps jira_registry ''issue key'' 5
          = pre @ ''['' @ decimal_digits i @ ''] jira_get_issue  (server: Jira)'' @ rest)
   \<and> get jira_registry ''jira_get_issue'' = None
   \<and> call_tool sample_loads ok_session jira_registry sample_uid ''jira_get_issue'' (PStr ''{}'')
       = ([], Inr (''ERROR: Tool '' @ [CHR 0x27] @ ''jira_get_issue'' @ [CHR 0x27]
                   @ '' not found in registry.'' @ [CHR 0x0A]
                   @ ''Did you mean: jira_get_issue?'' @ [CHR 0x0A]
                   @ ''Use find_tool to search for the correct tool name.''))"
proof -
  have m: "(''Jira'', 1, [jira_list_issues, jira_get_issue]) \<in> set jira_batches"
    by (simp add: jira_batches_def)
  have t: "jira_get_issue \<in> set [jira_list_issues, jira_get_issue]"
    by simp
  have q: "''jira_get_issue'' = py_lower ''Jira'' @ ''_'' @ tool_name jira_get_issue"
    by code_simp
  have r: "jira_registry = register_all empty_registry jira_batches"
    by (simp add: jira_registry_def jira_batches_def)
  have a: "''jira_get_issue'' \<notin> set (registered_raw_names jira_batches)"
    by code_simp
  have b: "py_strip ''jira_get_issue'' \<notin> set (registered_raw_names jira_batches)"
    by code_simp
  have e: "make_entry ''Jira'' 1 jira_get_issue = entry_get_issue"
    by code_simp
  have f: "py_strip ''issue key'' \<noteq> []
      \<and> make_entry ''Jira'' 1 jira_get_issue \<in> set (search jira_registry (py_strip ''issue key'') 5)"
    by code_simp
  have s: "''ERROR: Tool '' @ [CHR 0x27] @ py_strip ''jira_get_issue'' @ [CHR 0x27]
             @ '' not found in registry.'' @ [CHR 0x0A]
             @ ''Did you mean: ''
             @ (if search jira_registry (py_strip ''jira_get_issue'') 3 \<noteq> []
                then py_join '', '' (map name (search jira_registry (py_strip ''jira_get_issue'') 3))
                else ''none found'')
             @ ''?'' @ [CHR 0x0A]
             @ ''Use find_tool to search for the correct tool name.''
           = ''ERROR: Tool '' @ [CHR 0x27] @ ''jira_get_issue'' @ [CHR 0x27]
             @ '' not found in registry.'' @ [CHR 0x0A]
             @ ''Did you mean: jira_get_issue?'' @ [CHR 0x0A]
             @ ''Use find_tool to search for the correct tool name.''"
    by code_simp
  note inst = qualified_name_not_resolved [where loads = sample_loads and sess = ok_session
         and arguments = "PStr ''{}''" and uid = sample_uid, OF m t q r a]
  from inst have 1: "make_entry ''Jira'' 1 jira_get_issue \<in> set (tools jira_registry)"
    by (elim conjE)
  from inst have 2: "name (make_entry ''Jira'' 1 jira_get_issue) = ''jira_get_issue''"
    by (elim conjE)
  from inst have 3: "get jira_registry ''jira_get_issue'' = None"
    by (elim conjE)
  from inst have "\<forall>dumps query top_k.
           py_strip query \<noteq> []
           \<and> make_entry ''Jira'' 1 jira_get_issue \<in> set (search jira_registry (py_strip query) top_k) \<longrightarrow>
           (\<exists>i pre rest. find_tool dumps jira_registry query top_k
              = pre @ ''['' @ decimal_digits i @ ''] '' @ ''jira_get_issue'' @ ''  (server: ''
                  @ ''Jira'' @ '')'' @ rest)"
    by (elim conjE)
  then have "\<exists>i pre rest. find_tool dumps jira_registry ''issue key'' 5
              = pre @ ''['' @ decimal_digits i @ ''] '' @ ''jira_get_issue'' @ ''  (server: ''
                  @ ''Jira'' @ '')'' @ rest" for dumps
    using f by (elim allE impE)
  then have 4: "\<forall>dumps. \<exists>i pre rest. find_tool dumps jira_registry ''issue key'' 5
          = pre @ ''['' @ decimal_digits i @ ''] jira_get_issue  (server: Jira)'' @ rest"
    by simp
  from inst have "py_strip ''jira_get_issue'' \<notin> set (registered_raw_names jira_batches) \<longrightarrow>
          fst (call_tool sample_loads ok_session jira_registry sample_uid ''jira_get_issue''
                 (PStr ''{}'')) = []
          \<and> (\<forall>args. parse_arguments sample_loads (PStr ''{}'') = Parsed args \<longrightarrow>
                call_tool sample_loads ok_session jira_registry sample_uid ''jira_get_issue''
                  (PStr ''{}'')
                  = ([], Inr (''ERROR: Tool '' @ [CHR 0x27] @ py_strip ''jira_get_issue'' @ [CHR 0x27]
                              @ '' not found in registry.'' @ [CHR 0x0A]
                              @ ''Did you mean: ''
                              @ (if search jira_registry (py_strip ''jira_get_issue'') 3 \<noteq> []
                                 then py_join '', ''
                                        (map name (search jira_registry (py_strip ''jira_get_issue'') 3))
                                 else ''none found'')
                              @ ''?'' @ [CHR 0x0A]
                              @ ''Use find_tool to search for the correct tool name.'')))"
    by (elim conjE)
  with b parse_sample_braces
  have "call_tool sample_loads ok_session jira_registry sample_uid ''jira_get_issue'' (PStr ''{}'')
                  = ([], Inr (''ERROR: Tool '' @ [CHR 0x27] @ py_strip ''jira_get_issue'' @ [CHR 0x27]
                              @ '' not found in registry.'' @ [CHR 0x0A]
                              @ ''Did you mean: ''
                              @ (if search jira_registry (py_strip ''jira_get_issue'') 3 \<noteq> []
                                 then py_join '', ''
                                        (map name (search jira_registry (py_strip ''jira_get_issue'') 3))
                                 else ''none found'')
                              @ ''?'' @ [CHR 0x0A]
                              @ ''Use find_tool to search for the correct tool name.''))"
    by (elim impE conjE allE)
  then have 5: "call_tool sample_loads ok_session jira_registry sample_uid ''jira_get_issue''
        (PStr ''{}'')
       = ([], Inr (''ERROR: Tool '' @ [CHR 0x27] @ ''jira_get_issue'' @ [CHR 0x27]
                   @ '' not found in registry.'' @ [CHR 0x0A]
                   @ ''Did you mean: jira_get_issue?'' @ [CHR 0x0A]
                   @ ''Use find_tool to search for the correct tool name.''))"
    by (simp only: s)
  from a b 1 2 4 3 5 show ?thesis
    by (simp only: e simp_thms)
qed

text \<open>The claim as stated fails where stripping changes the qualified name: \<^verbatim>\<open>"hub_sync "\<close>,
  the qualified name of the tool \<^verbatim>\<open>"sync "\<close> of the backend Hub, differs from both registered
  raw names and is absent from the index, yet \<^verbatim>\<open>call_tool\<close> strips it to \<^verbatim>\<open>"hub_sync"\<close>, a raw
  name of the backend Ops, and calls that session.\<close>

theorem stripped_qualified_name_is_dispatched:
  "''hub_sync '' \<notin> set (registered_raw_names hub_batches)
   \<and> name (make_entry ''Hub'' 1 hub_sync) = ''hub_sync ''
   \<and> make_entry ''Hub'' 1 hub_sync \<in> set (tools (register_all empty_registry hub_batches))
   \<and> get (register_all empty_registry hub_batches) ''hub_sync '' = None
   \<and> call_tool sample_loads ok_session (register_all empty_registry hub_batches) sample_uid
        ''hub_sync '' (PStr ''{}'')
       = ([\<lparr>inv_client = 2, inv_tool_use_id = ''optimizer-3f2a9c1e'', inv_name = ''hub_sync'',
            inv_arguments = PDict []\<rparr>], Inr ''ok'')"
  by code_simp

text \<open>
  C2. For a query with at least one word token, \<^verbatim>\<open>search\<close> returns the slice \<^verbatim>\<open>[:top_k]\<close> of the
  ranked list, which for \<open>top_k \<ge> 0\<close> is its first \<open>top_k\<close> entries. The score of an entry is
  the number of query tokens among the tokens of the lowercased \<^verbatim>\<open>name + " " + description\<close>
  (the name is the qualified one) over the number of query tokens. The ranked list holds
  exactly the entries of the tool list with a score other than 0, so no returned entry has
  score 0; it is in descending score; and the entries of one score stand in registration
  order. The result depends on the tool list, the query and \<open>top_k\<close> only.
\<close>

theorem search_ranking:
  assumes "words = set (findall_w (py_lower query))" and "words \<noteq> {}"
  shows "search r query top_k = py_slice_upto (ranked words (tools r)) top_k
     \<and> (0 \<le> top_k \<longrightarrow> search r query top_k = take (nat top_k) (ranked words (tools r)))
     \<and> (\<forall>e. score words e =
            of_nat (card (words \<inter> set (findall_w (py_lower (name e @ '' '' @ description e)))))
              / of_nat (card words))
     \<and> set (ranked words (tools r)) = {e \<in> set (tools r). score words e \<noteq> 0}
     \<and> (\<forall>e \<in> set (search r query top_k). score words e \<noteq> 0)
     \<and> sorted_wrt (\<lambda>a b. score words b \<le> score words a) (ranked words (tools r))
     \<and> (\<forall>s. s \<noteq> 0 \<longrightarrow> filter (\<lambda>e. score words e = s) (ranked words (tools r))
                          = filter (\<lambda>e. score words e = s) (tools r))
     \<and> (\<forall>r'. tools r' = tools r \<longrightarrow> search r' query top_k = search r query top_k)"
proof -
  have s: "search r query top_k = py_slice_upto (ranked words (tools r)) top_k" for r
    using assms by (simp add: search_nonempty_words)
  have c1: "search r query top_k = py_slice_upto (ranked words (tools r)) top_k"
    by (rule s)
  have c2: "0 \<le> top_k \<longrightarrow> search r query top_k = take (nat top_k) (ranked words (tools r))"
    by (simp add: s py_slice_upto_def)
  have c3: "\<forall>e. score words e =
            of_nat (card (words \<inter> set (findall_w (py_lower (name e @ '' '' @ description e)))))
              / of_nat (card words)"
    by (simp add: score_def Let_def)
  have c4: "set (ranked words (tools r)) = {e \<in> set (tools r). score words e \<noteq> 0}"
    by (rule set_ranked)
  have c5: "\<forall>e \<in> set (search r query top_k). score words e \<noteq> 0"
  proof
    fix e assume "e \<in> set (search r query top_k)"
    then have "e \<in> set (py_slice_upto (ranked words (tools r)) top_k)"
      by (simp only: s)
    then have "e \<in> set (ranked words (tools r))"
      using set_py_slice_upto by (rule rev_subsetD)
    then show "score words e \<noteq> 0" by (simp add: set_ranked)
  qed
  have c6: "sorted_wrt (\<lambda>a b. score words b \<le> score words a) (ranked words (tools r))"
    by (rule sorted_desc_ranked)
  have c7: "\<forall>s. s \<noteq> 0 \<longrightarrow> filter (\<lambda>e. score words e = s) (ranked words (tools r))
                          = filter (\<lambda>e. score words e = s) (tools r)"
    by (intro allI impI) (rule stable_ranked)
  have c8: "\<forall>r'. tools r' = tools r \<longrightarrow> search r' query top_k = search r query top_k"
    by (simp add: s)
  from c1 c2 c3 c4 c5 c6 c7 c8 show ?thesis
    by (intro conjI)
qed

theorem search_ranking_witness:
  "set (findall_w (py_lower ''Jira issue KEY'')) \<noteq> {}
   \<and> search jira_registry ''Jira issue KEY'' 5 = [entry_get_issue, entry_list_issues]
   \<and> score (set (findall_w (py_lower ''Jira issue KEY''))) entry_get_issue = 1
   \<and> score (set (findall_w (py_lower ''Jira issue KEY''))) entry_list_issues = 1 / 3
   \<and> findall_w (py_lower (''CAF'' @ [CHR 0xC9])) = [''caf'' @ [CHR 0xE9]]
   \<and> search ecole_registry (''CAF'' @ [CHR 0xC9]) 5 = [entry_ecole_menu]
   \<and> search ecole_registry ''caf'' 5 = []"
proof -
  have x1: "findall_w (py_lower (''CAF'' @ [CHR 0xC9])) = [''caf'' @ [CHR 0xE9]]"
    by code_simp
  have x2: "search ecole_registry (''CAF'' @ [CHR 0xC9]) 5 = [entry_ecole_menu]"
    by code_simp
  have x3: "search ecole_registry ''caf'' 5 = []"
    by code_simp
  have h: "set (findall_w (py_lower ''Jira issue KEY'')) \<noteq> {}"
    by code_simp
  have r: "take (nat 5) (ranked (set (findall_w (py_lower ''Jira issue KEY''))) (tools jira_registry))
      = [entry_get_issue, entry_list_issues]"
    by code_simp
  have s1: "score (set (findall_w (py_lower ''Jira issue KEY''))) entry_get_issue = 1"
    by code_simp
  have s2: "score (set (findall_w (py_lower ''Jira issue KEY''))) entry_list_issues = 1 / 3"
    by code_simp
  from search_ranking [OF refl h, of jira_registry 5]
  have "0 \<le> (5::int) \<longrightarrow> search jira_registry ''Jira issue KEY'' 5
      = take (nat 5) (ranked (set (findall_w (py_lower ''Jira issue KEY''))) (tools jira_registry))"
    by (elim conjE)
  moreover have "0 \<le> (5::int)"
    by simp
  ultimately have "search jira_registry ''Jira issue KEY'' 5
      = take (nat 5) (ranked (set (findall_w (py_lower ''Jira issue KEY''))) (tools jira_registry))"
    by (rule mp)
  then have "search jira_registry ''Jira issue KEY'' 5 = [entry_get_issue, entry_list_issues]"
    using r by (rule trans)
  with h s1 s2 x1 x2 x3 show ?thesis by (intro conjI)
qed

text \<open>
  C3 (as amended). For a query without word tokens (the empty or a whitespace-only query,
  see \<open>whitespace_query_no_words\<close>), \<^verbatim>\<open>search\<close> returns, for \<open>top_k \<ge> 0\<close>, the first
  \<open>min top_k total\<close> entries of the tool list in registration order, so the empty list for
  \<open>top_k = 0\<close>. \<open>top_k\<close> is not clamped: for \<open>top_k < 0\<close> the result is the tool list without its
  last \<open>- top_k\<close> entries, as the slice \<^verbatim>\<open>[:top_k]\<close> gives it.
\<close>

theorem search_empty_query:
  assumes "set (findall_w (py_lower query)) = {}"
  shows "(0 \<le> top_k \<longrightarrow> search r query top_k = take (min (nat top_k) (total r)) (tools r))
     \<and> (top_k = 0 \<longrightarrow> search r query top_k = [])
     \<and> (top_k < 0 \<longrightarrow> search r query top_k = take (total r - nat (- top_k)) (tools r))"
  using assms by (simp add: search_def py_slice_upto_def total_def min_def)

theorem search_empty_query_witness:
  "set (findall_w (py_lower ''  '')) = {}
   \<and> set (findall_w (py_lower [CHR 0x09, CHR 0xA0, CHR 0x85])) = {}
   \<and> search jira_registry ''  '' 1 = [entry_list_issues]
   \<and> search jira_registry ''  '' 5 = [entry_list_issues, entry_get_issue]
   \<and> search jira_registry ''  '' 0 = []
   \<and> search jira_registry ''  '' (- 1) = [entry_list_issues]
   \<and> search jira_registry ''  '' (- 7) = []"
proof -
  have h: "set (findall_w (py_lower ''  '')) = {}"
    by code_simp
  have h': "set (findall_w (py_lower [CHR 0x09, CHR 0xA0, CHR 0x85])) = {}"
    by code_simp
  have t: "total jira_registry = 2"
    by code_simp
  from search_empty_query [OF h, of 1 jira_registry]
       search_empty_query [OF h, of 5 jira_registry]
       search_empty_query [OF h, of 0 jira_registry]
       search_empty_query [OF h, of "- 1" jira_registry]
       search_empty_query [OF h, of "- 7" jira_registry]
  show ?thesis
    using h h' by (simp add: t tools_jira_registry)
qed

text \<open>The claim as stated fails for a negative \<open>top_k\<close>: it is not clamped to 0. With two
  registered tools and \<open>top_k = -1\<close> the slice \<^verbatim>\<open>[:-1]\<close> returns the first tool, where the
  clamped bound would give the empty list.\<close>

theorem search_negative_top_k_not_clamped:
  "set (findall_w (py_lower ''  '')) = {}
   \<and> search jira_registry ''  '' (- 1) = [entry_list_issues]
   \<and> take (min (nat (max 0 (- 1))) (total jira_registry)) (tools jira_registry) = []"
  by code_simp

text \<open>
  C4 (as amended). \<^verbatim>\<open>call_tool\<close> strips the tool name and, for a string payload, replaces the
  empty string by \<^verbatim>\<open>"{}"\<close> and strips it before decoding. For every tool name that is not
  blank and every string payload whose text so prepared the decoder rejects with a
  \<^verbatim>\<open>JSONDecodeError\<close>, \<^verbatim>\<open>call_tool\<close> returns the message written out below, with the
  \<^verbatim>\<open>repr\<close> of that text (the text between single quotes when it is printable ASCII
  without quote and backslash) and the decoder's error; the result is the same for every
  registry and every session, and no session is called. A payload that is a dictionary is
  passed to the session as it is.
\<close>

theorem call_tool_invalid_arguments:
  assumes "py_strip tool_name0 \<noteq> []"
    and "args_str = py_strip (if s = [] then ''{}'' else s)"
    and "loads args_str = JSONDecodeError exc"
  shows "call_tool loads sess registry uid tool_name0 (PStr s)
           = ([], Inr (''ERROR: arguments must be a valid JSON string.'' @ [CHR 0x0A]
                       @ ''Received: '' @ repr_str args_str @ [CHR 0x0A]
                       @ ''JSON error: '' @ exc @ [CHR 0x0A]
                       @ ''Example: '' @ [CHR 0x27] @ ''{'' @ [CHR 0x22] @ ''issue_key''
                       @ [CHR 0x22] @ '': '' @ [CHR 0x22] @ ''RBTES-121'' @ [CHR 0x22] @ ''}''
                       @ [CHR 0x27]))
     \<and> ((\<forall>c\<in>set args_str. 0x20 \<le> (of_char c :: nat) \<and> (of_char c :: nat) < 0x7F
                              \<and> c \<noteq> CHR 0x27 \<and> c \<noteq> CHR 0x5C)
          \<longrightarrow> repr_str args_str = [CHR 0x27] @ args_str @ [CHR 0x27])
     \<and> (\<forall>d e. get registry (py_strip tool_name0) = Some e \<longrightarrow>
           fst (call_tool loads sess registry uid tool_name0 (PDict d))
             = [\<lparr>inv_client = started_client e, inv_tool_use_id = ''optimizer-'' @ take 8 uid,
                 inv_name = py_strip tool_name0, inv_arguments = PDict d\<rparr>])"
proof (intro conjI allI impI)
  have "parse_arguments loads (PStr s) = Rejected (invalid_arguments_message args_str exc)"
    using assms(2,3) by (simp add: parse_arguments_str)
  with assms(1)
  have "call_tool loads sess registry uid tool_name0 (PStr s)
           = ([], Inr (invalid_arguments_message args_str exc))"
    by (rule call_tool_rejected)
  then show "call_tool loads sess registry uid tool_name0 (PStr s)
           = ([], Inr (''ERROR: arguments must be a valid JSON string.'' @ [CHR 0x0A]
                       @ ''Received: '' @ repr_str args_str @ [CHR 0x0A]
                       @ ''JSON error: '' @ exc @ [CHR 0x0A]
                       @ ''Example: '' @ [CHR 0x27] @ ''{'' @ [CHR 0x22] @ ''issue_key''
                       @ [CHR 0x22] @ '': '' @ [CHR 0x22] @ ''RBTES-121'' @ [CHR 0x22] @ ''}''
                       @ [CHR 0x27]))"
    by (simp add: invalid_arguments_message_def NL_def)
next
  assume "\<forall>c\<in>set args_str. 0x20 \<le> (of_char c :: nat) \<and> (of_char c :: nat) < 0x7F
                              \<and> c \<noteq> CHR 0x27 \<and> c \<noteq> CHR 0x5C"
  then show "repr_str args_str = [CHR 0x27] @ args_str @ [CHR 0x27]"
    by (rule repr_str_plain)
next
  fix d e assume "get registry (py_strip tool_name0) = Some e"
  from call_tool_dispatch[OF assms(1) parse_arguments_dict this]
  show "fst (call_tool loads sess registry uid tool_name0 (PDict d))
             = [\<lparr>inv_client = started_client e, inv_tool_use_id = ''optimizer-'' @ take 8 uid,
                 inv_name = py_strip tool_name0, inv_arguments = PDict d\<rparr>]"
    by simp
qed

theorem call_tool_invalid_arguments_witness:
  "py_strip ''jira_get_issue'' \<noteq> []
   \<and> sample_loads (py_strip ''not valid json'')
       = JSONDecodeError ''Expecting value: line 1 column 1 (char 0)''
   \<and> call_tool sample_loads ok_session jira_registry sample_uid ''jira_get_issue''
        (PStr ''not valid json'')
      = ([], Inr (''ERROR: arguments must be a valid JSON string.'' @ [CHR 0x0A]
                  @ ''Received: '' @ [CHR 0x27] @ ''not valid json'' @ [CHR 0x27, CHR 0x0A]
                  @ ''JSON error: Expecting value: line 1 column 1 (char 0)'' @ [CHR 0x0A]
                  @ ''Example: '' @ [CHR 0x27] @ ''{'' @ [CHR 0x22] @ ''issue_key''
                  @ [CHR 0x22] @ '': '' @ [CHR 0x22] @ ''RBTES-121'' @ [CHR 0x22] @ ''}''
                  @ [CHR 0x27]))
   \<and> fst (call_tool sample_loads ok_session jira_registry sample_uid ''get_issue''
        (PDict [(''issue_key'', PStr ''RBTES-121'')]))
      = [get_issue_call (PDict [(''issue_key'', PStr ''RBTES-121'')])]
   \<and> call_tool sample_loads ok_session jira_registry sample_uid (''get_issue'' @ [CHR 0xA0])
        (PStr (''{}'' @ [CHR 0xA0]))
      = ([get_issue_call (PDict [])], Inr ''ok'')"
proof -
  have n: "py_strip ''jira_get_issue'' \<noteq> []" by code_simp
  have s: "''not valid json''
         = py_strip (if ''not valid json'' = [] then ''{}'' else ''not valid json'')"
    by code_simp
  have l: "sample_loads ''not valid json''
         = JSONDecodeError ''Expecting value: line 1 column 1 (char 0)''"
    by code_simp
  have l': "sample_loads (py_strip ''not valid json'')
          = JSONDecodeError ''Expecting value: line 1 column 1 (char 0)''"
    by code_simp
  have p: "\<forall>c\<in>set ''not valid json''. 0x20 \<le> (of_char c :: nat) \<and> (of_char c :: nat) < 0x7F
                              \<and> c \<noteq> CHR 0x27 \<and> c \<noteq> CHR 0x5C"
    by code_simp
  note inst = call_tool_invalid_arguments [where loads = sample_loads and sess = ok_session
                and registry = jira_registry and uid = sample_uid, OF n s l]
  from inst p have q: "repr_str ''not valid json'' = [CHR 0x27] @ ''not valid json'' @ [CHR 0x27]"
    by (elim conjE impE)
  from inst have "call_tool sample_loads ok_session jira_registry sample_uid ''jira_get_issue''
        (PStr ''not valid json'')
      = ([], Inr (''ERROR: arguments must be a valid JSON string.'' @ [CHR 0x0A]
                  @ ''Received: '' @ repr_str ''not valid json'' @ [CHR 0x0A]
                  @ ''JSON error: '' @ ''Expecting value: line 1 column 1 (char 0)'' @ [CHR 0x0A]
                  @ ''Example: '' @ [CHR 0x27] @ ''{'' @ [CHR 0x22] @ ''issue_key''
                  @ [CHR 0x22] @ '': '' @ [CHR 0x22] @ ''RBTES-121'' @ [CHR 0x22] @ ''}''
                  @ [CHR 0x27]))"
    by (elim conjE)
  then have a: "call_tool sample_loads ok_session jira_registry sample_uid ''jira_get_issue''
        (PStr ''not valid json'')
      = ([], Inr (''ERROR: arguments must be a valid JSON string.'' @ [CHR 0x0A]
                  @ ''Received: '' @ [CHR 0x27] @ ''not valid json'' @ [CHR 0x27, CHR 0x0A]
                  @ ''JSON error: Expecting value: line 1 column 1 (char 0)'' @ [CHR 0x0A]
                  @ ''Example: '' @ [CHR 0x27] @ ''{'' @ [CHR 0x22] @ ''issue_key''
                  @ [CHR 0x22] @ '': '' @ [CHR 0x22] @ ''RBTES-121'' @ [CHR 0x22] @ ''}''
                  @ [CHR 0x27]))"
    by (simp add: q)
  have "fst (call_tool sample_loads ok_session jira_registry sample_uid ''get_issue''
        (PDict [(''issue_key'', PStr ''RBTES-121'')]))
      = [\<lparr>inv_client = started_client entry_get_issue,
            inv_tool_use_id = ''optimizer-'' @ take 8 sample_uid,
            inv_name = py_strip ''get_issue'',
            inv_arguments = PDict [(''issue_key'', PStr ''RBTES-121'')]\<rparr>]"
    by (rule call_tool_invalid_arguments [where loads = sample_loads and sess = ok_session,
                OF get_issue_nonblank s l, THEN conjunct2, THEN conjunct2, rule_format,
                OF get_jira_get_issue])
  then have b: "fst (call_tool sample_loads ok_session jira_registry sample_uid ''get_issue''
        (PDict [(''issue_key'', PStr ''RBTES-121'')]))
      = [get_issue_call (PDict [(''issue_key'', PStr ''RBTES-121'')])]"
    by (simp only: strip_get_issue get_issue_call_eq)
  have x: "call_tool sample_loads ok_session jira_registry sample_uid (''get_issue'' @ [CHR 0xA0])
        (PStr (''{}'' @ [CHR 0xA0]))
      = ([get_issue_call (PDict [])], Inr ''ok'')"
    by code_simp
  from n l' a b x show ?thesis by (intro conjI)
qed

text \<open>The claim as stated fails at the empty payload: the empty string is not valid JSON (the
  decoder rejects it), yet no invalid-arguments message is returned; \<^verbatim>\<open>"{}"\<close> is decoded in
  its place, the tool is looked up and its session is called.\<close>

theorem empty_payload_is_dispatched:
  "sample_loads [] = JSONDecodeError ''Expecting value: line 1 column 1 (char 0)''
   \<and> call_tool sample_loads ok_session jira_registry sample_uid ''get_issue'' (PStr [])
      = ([get_issue_call (PDict [])], Inr ''ok'')"
  by code_simp

text \<open>
  C5. The claim says that a dictionary result whose extracted text is empty gives the marker
  for an empty result, and in particular that the empty dictionary does. The code does
  not: with no text part the output is the text of the whole result, \<^verbatim>\<open>"{}"\<close> for the empty
  dictionary, which is not empty, so the marker is not returned; the path for results that
  are not dictionaries does return the marker for a false result. The run below is
  \<^verbatim>\<open>call_tool\<close> on a session that returns the empty dictionary.
\<close>

theorem empty_map_result_is_stringified:
  "call_tool sample_loads empty_map_session jira_registry sample_uid ''get_issue'' (PStr ''{}'')
     = ([get_issue_call (PDict [])], Inr ''{}'')
   \<and> extract_text ''get_issue'' (PDict []) \<noteq> Inr empty_result_marker
   \<and> extract_text ''get_issue'' (PDict [(''status'', PStr ''success''), (''content'', PList [])])
       = Inr ''{'status': 'success', 'content': []}''
   \<and> extract_text ''get_issue'' PNone = Inr empty_result_marker
   \<and> extract_text ''get_issue'' (PList []) = Inr empty_result_marker"
  by code_simp

text \<open>
  C6. \<^verbatim>\<open>register\<close> appends one entry per tool to the end of the tool list, in the order of the
  batch, and returns their number; it removes and reorders nothing. In the index every raw
  name of the batch then holds an entry of this batch, whatever it held before (the later
  registration wins for \<^verbatim>\<open>get\<close>), and every other key is as before. So after two backends
  registered the same raw name the list keeps both entries and \<^verbatim>\<open>get\<close> returns the later.
\<close>

theorem register_last_wins:
  "tools (fst (register r srv cl ts)) = tools r @ map (make_entry srv cl) ts
   \<and> snd (register r srv cl ts) = length ts
   \<and> (\<forall>t\<in>set ts. \<exists>t'\<in>set ts. tool_name t' = tool_name t
          \<and> get (fst (register r srv cl ts)) (tool_name t) = Some (make_entry srv cl t'))
   \<and> (\<forall>k. k \<notin> tool_name ` set ts \<longrightarrow> get (fst (register r srv cl ts)) k = get r k)"
proof (intro conjI ballI allI impI)
  show "tools (fst (register r srv cl ts)) = tools r @ map (make_entry srv cl) ts"
    by (rule tools_register)
  show "snd (register r srv cl ts) = length ts"
    by (simp add: register_eq)
next
  fix t assume "t \<in> set ts"
  from find_by_name[OF this] obtain t' where
    "t' \<in> set ts" "tool_name t' = tool_name t"
    "find (\<lambda>u. tool_name u = tool_name t) (rev ts) = Some t'"
    by blast
  then show "\<exists>t'\<in>set ts. tool_name t' = tool_name t
          \<and> get (fst (register r srv cl ts)) (tool_name t) = Some (make_entry srv cl t')"
    by (auto simp: get_register)
next
  fix k assume k: "k \<notin> tool_name ` set ts"
  have "find (\<lambda>t. tool_name t = k) (rev ts) = None"
  proof (cases "find (\<lambda>t. tool_name t = k) (rev ts)")
    case (Some t)
    from find_Some_in[OF Some] k show ?thesis by auto
  qed simp
  then show "get (fst (register r srv cl ts)) k = get r k"
    by (simp add: get_register)
qed

theorem register_last_wins_witness:
  "get jira_registry ''get_issue'' = Some entry_get_issue
   \<and> get two_backend_registry ''get_issue'' = Some entry_github_get_issue
   \<and> tools two_backend_registry = [entry_list_issues, entry_get_issue, entry_github_get_issue]
   \<and> snd (register jira_registry ''GitHub'' 2 [github_get_issue]) = 1
   \<and> get two_backend_registry ''list_issues'' = Some entry_list_issues"
proof -
  have a: "get jira_registry ''get_issue'' = Some entry_get_issue"
    by code_simp
  have b: "get jira_registry ''list_issues'' = Some entry_list_issues"
    by code_simp
  have c: "make_entry ''GitHub'' 2 github_get_issue = entry_github_get_issue"
    by code_simp
  have n: "tool_name github_get_issue = ''get_issue''"
    by (simp add: github_get_issue_def)
  from register_last_wins [of jira_registry "''GitHub''" 2 "[github_get_issue]"]
  show ?thesis
    by (simp add: a b c n two_backend_registry_def tools_jira_registry)
qed

text \<open>
  C7. For a registered tool whose session returns a dictionary with a list of content
  blocks and a status other than \<^verbatim>\<open>"error"\<close>: the texts are the \<^verbatim>\<open>text\<close> of each block
  (the key of a dictionary block, the attribute of an object block) that is not empty, as
  strings, in order; when there is one at least, \<^verbatim>\<open>call_tool\<close> returns the first text
  followed by each further text after a newline character (and the marker for an empty
  result should that output be empty). For the result
  \<^verbatim>\<open>{"status":"success","content":[{"text":"ok"}]}\<close> that is exactly \<^verbatim>\<open>"ok"\<close>.
\<close>

theorem call_tool_text_output:
  assumes "py_strip tool_name0 \<noteq> []"
    and "parse_arguments loads arguments = Parsed args"
    and "get registry (py_strip tool_name0) = Some e"
    and "sess (started_client e) (''optimizer-'' @ take 8 uid) (py_strip tool_name0) args
           = Returns (PDict d)"
    and "dict_get d ''content'' (PList []) = PList blocks"
    and "dict_get d ''status'' (PStr ''success'') \<noteq> PStr ''error''"
    and "texts = map py_str (filter truthy (map block_text blocks))"
    and "texts \<noteq> []"
    and "output = hd texts @ concat (map (\<lambda>t. CHR 0x0A # t) (tl texts))"
  shows "snd (call_tool loads sess registry uid tool_name0 arguments)
     = Inr (if output \<noteq> [] then output else ''(Tool returned an empty result)'')"
proof -
  have "py_iter (dict_get d ''content'' (PList [])) = Inr blocks"
    using assms(5) by simp
  from extract_text_dict[OF this] assms(6,7,8)
  have "extract_text (py_strip tool_name0) (PDict d)
      = Inr (if py_join NL texts \<noteq> [] then py_join NL texts else empty_result_marker)"
    by (simp add: Let_def)
  moreover have "py_join NL texts = output"
    using assms(8,9) by (cases texts) (simp_all add: py_join_Cons NL_def)
  ultimately have "extract_text (py_strip tool_name0) (PDict d)
      = Inr (if output \<noteq> [] then output else ''(Tool returned an empty result)'')"
    by (simp add: empty_result_marker_def)
  with call_tool_dispatch[OF assms(1,2,3), of sess uid] assms(4) show ?thesis
    by simp
qed

theorem call_tool_text_output_witness:
  "snd (call_tool sample_loads ok_session jira_registry sample_uid ''get_issue'' (PStr ''{}''))
     = Inr ''ok''
   \<and> snd (call_tool sample_loads mixed_session jira_registry sample_uid ''get_issue''
            (PStr ''{}''))
     = Inr (''line one'' @ [CHR 0x0A] @ ''line two'')"
proof -
  have r: "ok_session (started_client entry_get_issue) (''optimizer-'' @ take 8 sample_uid)
             (py_strip ''get_issue'') (PDict [])
           = Returns (PDict [(''status'', PStr ''success''),
                             (''content'', PList [PDict [(''text'', PStr ''ok'')]])])"
    by (simp add: ok_session_def ok_result_def)
  have b: "dict_get [(''status'', PStr ''success''),
                     (''content'', PList [PDict [(''text'', PStr ''ok'')]])] ''content'' (PList [])
           = PList [PDict [(''text'', PStr ''ok'')]]"
    by code_simp
  have st: "dict_get [(''status'', PStr ''success''),
                      (''content'', PList [PDict [(''text'', PStr ''ok'')]])]
              ''status'' (PStr ''success'') \<noteq> PStr ''error''"
    by code_simp
  have t: "[''ok''] = map py_str (filter truthy (map block_text [PDict [(''text'', PStr ''ok'')]]))"
    by code_simp
  have o: "''ok'' = hd [''ok''] @ concat (map (\<lambda>t. CHR 0x0A # t) (tl [''ok'']))"
    by simp
  from call_tool_text_output [where loads = sample_loads and sess = ok_session,
         OF get_issue_nonblank parse_sample_braces get_jira_get_issue r b st t _ o]
  have 1: "snd (call_tool sample_loads ok_session jira_registry sample_uid ''get_issue''
                 (PStr ''{}'')) = Inr ''ok''"
    by simp
  have r2: "mixed_session (started_client entry_get_issue) (''optimizer-'' @ take 8 sample_uid)
             (py_strip ''get_issue'') (PDict [])
           = Returns (PDict [(''toolUseId'', PStr ''optimizer-3f2a9c1e''),
               (''content'', PList [PDict [(''text'', PStr ''line one'')],
                          PObj ''TextContent'' [(''text'', PStr ''line two'')],
                          PDict [(''text'', PStr [])],
                          PDict [(''image'', PNone)]])])"
    by (simp add: mixed_session_def mixed_result_def)
  have b2: "dict_get [(''toolUseId'', PStr ''optimizer-3f2a9c1e''),
               (''content'', PList [PDict [(''text'', PStr ''line one'')],
                          PObj ''TextContent'' [(''text'', PStr ''line two'')],
                          PDict [(''text'', PStr [])],
                          PDict [(''image'', PNone)]])] ''content'' (PList [])
           = PList [PDict [(''text'', PStr ''line one'')],
                    PObj ''TextContent'' [(''text'', PStr ''line two'')],
                    PDict [(''text'', PStr [])],
                    PDict [(''image'', PNone)]]"
    by code_simp
  have st2: "dict_get [(''toolUseId'', PStr ''optimizer-3f2a9c1e''),
               (''content'', PList [PDict [(''text'', PStr ''line one'')],
                          PObj ''TextContent'' [(''text'', PStr ''line two'')],
                          PDict [(''text'', PStr [])],
                          PDict [(''image'', PNone)]])] ''status'' (PStr ''success'')
           \<noteq> PStr ''error''"
    by code_simp
  have t2: "[''line one'', ''line two'']
         = map py_str (filter truthy (map block_text
             [PDict [(''text'', PStr ''line one'')],
              PObj ''TextContent'' [(''text'', PStr ''line two'')],
              PDict [(''text'', PStr [])],
              PDict [(''image'', PNone)]]))"
    by code_simp
  have o2: "''line one'' @ [CHR 0x0A] @ ''line two''
         = hd [''line one'', ''line two'']
           @ concat (map (\<lambda>t. CHR 0x0A # t) (tl [''line one'', ''line two'']))"
    by simp
  from call_tool_text_output [where loads = sample_loads and sess = mixed_session,
         OF get_issue_nonblank parse_sample_braces get_jira_get_issue r2 b2 st2 t2 _ o2]
  have 2: "snd (call_tool sample_loads mixed_session jira_registry sample_uid ''get_issue''
            (PStr ''{}'')) = Inr (''line one'' @ [CHR 0x0A] @ ''line two'')"
    by simp
  from 1 2 show ?thesis by (intro conjI)
qed

text \<open>
  C8 (as amended). For a registered tool, arguments that parse and a session whose call
  raises an exception that is an instance of \<^verbatim>\<open>Exception\<close>: \<^verbatim>\<open>call_tool\<close> returns the
  transport-error message, which names the tool, the type and the text of the exception and
  says that the session may have closed and the agent should be restarted; nothing leaves
  the operation as an exception, and the session was called exactly once.
\<close>

theorem call_tool_transport_error:
  assumes "py_strip tool_name0 \<noteq> []"
    and "parse_arguments loads arguments = Parsed args"
    and "get registry (py_strip tool_name0) = Some e"
    and "sess (started_client e) (''optimizer-'' @ take 8 uid) (py_strip tool_name0) args
           = Raises True cls msg"
  shows "call_tool loads sess registry uid tool_name0 arguments
     = ([\<lparr>inv_client = started_client e, inv_tool_use_id = ''optimizer-'' @ take 8 uid,
          inv_name = py_strip tool_name0, inv_arguments = args\<rparr>],
        Inr (transport_error_message (py_strip tool_name0) cls msg))"
  using call_tool_dispatch[OF assms(1,2,3), of sess uid] assms(4) by simp

theorem call_tool_transport_error_witness:
  "call_tool sample_loads closed_session jira_registry sample_uid ''get_issue'' (PStr ''{}'')
     = ([get_issue_call (PDict [])],
        Inr (transport_error_message ''get_issue'' ''RuntimeError'' ''session closed''))"
proof -
  have r: "closed_session (started_client entry_get_issue) (''optimizer-'' @ take 8 sample_uid)
             (py_strip ''get_issue'') (PDict []) = Raises True ''RuntimeError'' ''session closed''"
    by (simp add: closed_session_def)
  from call_tool_transport_error [where loads = sample_loads and sess = closed_session,
         OF get_issue_nonblank parse_sample_braces get_jira_get_issue r]
  show ?thesis
    by (simp only: strip_get_issue get_issue_call_eq)
qed

text \<open>The claim as stated fails for an exception that is not an instance of \<^verbatim>\<open>Exception\<close>:
  the handler does not catch a \<^verbatim>\<open>KeyboardInterrupt\<close> raised in the session call, and it
  leaves \<^verbatim>\<open>call_tool\<close>.\<close>

theorem interrupt_leaves_call_tool:
  "call_tool sample_loads interrupted_session jira_registry sample_uid ''get_issue'' (PStr ''{}'')
     = ([get_issue_call (PDict [])], Inl (Propagated ''KeyboardInterrupt'' []))"
  by code_simp

text \<open>
  C9. After \<^verbatim>\<open>register\<close> the qualified names of the appended entries are
  \<open>py_lower srv @ ''_'' @ tool_name t\<close> for the tools of the batch, in order, where
  \<open>py_lower srv\<close> is the server name with each capital letter (\<open>A\<close> to \<open>Z\<close>, \<open>U+00C0\<close> to
  \<open>U+00DE\<close> but \<open>U+00D7\<close>) replaced by its small letter, 32 code points up; the keys of the
  index are the old keys and the raw names of the batch; and the raw name of every tool of
  the batch holds an entry with that qualified name and that server. Registering the tool
  \<^verbatim>\<open>list_issues\<close> with the description \<^verbatim>\<open>list jira issues\<close> under the server \<^verbatim>\<open>Jira\<close> gives the
  key \<^verbatim>\<open>list_issues\<close> and the qualified name \<^verbatim>\<open>jira_list_issues\<close>.
\<close>

theorem register_qualified_name_and_key:
  "map name (drop (length (tools r)) (tools (fst (register r srv cl ts))))
     = map (\<lambda>t. py_lower srv @ ''_'' @ tool_name t) ts
   \<and> length (py_lower srv) = length srv
   \<and> (\<forall>i<length srv. (of_char (py_lower srv ! i) :: nat) =
         (let n = of_char (srv ! i)
          in if (0x41 \<le> n \<and> n \<le> 0x5A) \<or> (0xC0 \<le> n \<and> n \<le> 0xDE \<and> n \<noteq> 0xD7)
             then n + 32 else n))
   \<and> dom (index (fst (register r srv cl ts))) = dom (index r) \<union> tool_name ` set ts
   \<and> (\<forall>t\<in>set ts. \<exists>e. get (fst (register r srv cl ts)) (tool_name t) = Some e
          \<and> name e = py_lower srv @ ''_'' @ tool_name t \<and> server_name e = srv)"
proof (intro conjI ballI)
  show "map name (drop (length (tools r)) (tools (fst (register r srv cl ts))))
     = map (\<lambda>t. py_lower srv @ ''_'' @ tool_name t) ts"
    by (simp add: tools_register name_make_entry comp_def)
  show "length (py_lower srv) = length srv"
    using py_lower_nth[of srv] by (rule conjunct1)
  show "\<forall>i<length srv. (of_char (py_lower srv ! i) :: nat) =
         (let n = of_char (srv ! i)
          in if (0x41 \<le> n \<and> n \<le> 0x5A) \<or> (0xC0 \<le> n \<and> n \<le> 0xDE \<and> n \<noteq> 0xD7)
             then n + 32 else n)"
    using py_lower_nth[of srv] by (rule conjunct2)
  show "dom (index (fst (register r srv cl ts))) = dom (index r) \<union> tool_name ` set ts"
    by (rule dom_index_register)
next
  fix t assume "t \<in> set ts"
  from find_by_name[OF this] obtain t' where
    t': "tool_name t' = tool_name t" "find (\<lambda>u. tool_name u = tool_name t) (rev ts) = Some t'"
    by blast
  have "get (fst (register r srv cl ts)) (tool_name t) = Some (make_entry srv cl t')"
    by (simp add: get_register t')
  moreover have "name (make_entry srv cl t') = py_lower srv @ ''_'' @ tool_name t"
    by (simp add: name_make_entry t')
  moreover have "server_name (make_entry srv cl t') = srv"
    by (simp add: make_entry_def Let_def)
  ultimately show "\<exists>e. get (fst (register r srv cl ts)) (tool_name t) = Some e
          \<and> name e = py_lower srv @ ''_'' @ tool_name t \<and> server_name e = srv"
    by blast
qed

theorem register_qualified_name_and_key_witness:
  "map name (tools (fst (register empty_registry ''Jira'' 0 [jira_list_issues])))
     = [''jira_list_issues'']
   \<and> dom (index (fst (register empty_registry ''Jira'' 0 [jira_list_issues]))) = {''list_issues''}
   \<and> (\<exists>e. get (fst (register empty_registry ''Jira'' 0 [jira_list_issues])) ''list_issues'' = Some e
          \<and> name e = ''jira_list_issues'' \<and> description e = ''list jira issues''
          \<and> server_name e = ''Jira'')
   \<and> get ecole_registry ''menu'' = Some entry_ecole_menu
   \<and> name entry_ecole_menu = [CHR 0xE9] @ ''cole_menu''"
proof -
  have l: "py_lower ''Jira'' = ''jira''"
    by code_simp
  have x1: "get ecole_registry ''menu'' = Some entry_ecole_menu"
    by code_simp
  have x2: "name entry_ecole_menu = [CHR 0xE9] @ ''cole_menu''"
    by code_simp
  have d: "description e = ''list jira issues''"
    if "get (fst (register empty_registry ''Jira'' 0 [jira_list_issues])) ''list_issues'' = Some e"
    for e
    using that by (auto simp: get_register jira_list_issues_def make_entry_def Let_def)
  from register_qualified_name_and_key [of empty_registry "''Jira''" 0 "[jira_list_issues]"]
  have "map name (tools (fst (register empty_registry ''Jira'' 0 [jira_list_issues])))
     = [''jira_list_issues'']
   \<and> dom (index (fst (register empty_registry ''Jira'' 0 [jira_list_issues]))) = {''list_issues''}
   \<and> (\<exists>e. get (fst (register empty_registry ''Jira'' 0 [jira_list_issues])) ''list_issues'' = Some e
          \<and> name e = ''jira_list_issues'' \<and> server_name e = ''Jira'')"
    by (simp add: empty_registry_def jira_list_issues_def l)
  then obtain e where
    m: "map name (tools (fst (register empty_registry ''Jira'' 0 [jira_list_issues])))
          = [''jira_list_issues'']"
    and k: "dom (index (fst (register empty_registry ''Jira'' 0 [jira_list_issues])))
          = {''list_issues''}"
    and g: "get (fst (register empty_registry ''Jira'' 0 [jira_list_issues])) ''list_issues''
          = Some e"
    and n: "name e = ''jira_list_issues''" and v: "server_name e = ''Jira''"
    by (elim conjE exE)
  from m k g n v d[OF g] x1 x2 show ?thesis
    by (intro conjI exI)
qed

text \<open>
  C10. A payload that is false (the empty string, \<^verbatim>\<open>None\<close>, and the like) is replaced by the
  text \<^verbatim>\<open>"{}"\<close> before decoding: given that the decoder maps \<^verbatim>\<open>"{}"\<close> to the empty dictionary,
  the arguments parse to the empty dictionary and \<^verbatim>\<open>call_tool\<close> does what it does for the
  empty dictionary, not returning the invalid-arguments message for a failed decoding.
  A string of whitespace that is not empty is stripped to the empty text and decoded:
  given that the decoder rejects the empty text, \<^verbatim>\<open>call_tool\<close> (with a tool name that is not
  blank) returns the invalid-arguments message with that error and calls no session.
\<close>

theorem call_tool_falsy_arguments:
  "(\<not> truthy arguments \<and> loads ''{}'' = Decoded (PDict []) \<longrightarrow>
      parse_arguments loads arguments = Parsed (PDict [])
      \<and> call_tool loads sess registry uid tool_name0 arguments
          = call_tool loads sess registry uid tool_name0 (PDict []))
   \<and> (s \<noteq> [] \<and> (\<forall>c\<in>set s. is_space c) \<and> loads [] = JSONDecodeError exc \<and> py_strip tool_name0 \<noteq> [] \<longrightarrow>
        call_tool loads sess registry uid tool_name0 (PStr s)
          = ([], Inr (invalid_arguments_message [] exc)))"
proof (intro conjI impI)
  assume a: "\<not> truthy arguments \<and> loads ''{}'' = Decoded (PDict [])"
  show p: "parse_arguments loads arguments = Parsed (PDict [])"
  proof (cases "\<exists>d. arguments = PDict d")
    case True
    with a show ?thesis by (auto simp: parse_arguments_dict)
  next
    case False
    with a have "parse_arguments loads arguments = parse_arguments loads (PStr ''{}'')"
      by (simp add: parse_arguments_falsy)
    with a show ?thesis by (simp add: parse_arguments_str py_strip_braces)
  qed
  show "call_tool loads sess registry uid tool_name0 arguments
          = call_tool loads sess registry uid tool_name0 (PDict [])"
    by (rule call_tool_same_parse) (simp add: p parse_arguments_dict)
next
  assume a: "s \<noteq> [] \<and> (\<forall>c\<in>set s. is_space c) \<and> loads [] = JSONDecodeError exc \<and> py_strip tool_name0 \<noteq> []"
  then have "parse_arguments loads (PStr s) = Rejected (invalid_arguments_message [] exc)"
    by (simp add: parse_arguments_str py_strip_whitespace)
  with a show "call_tool loads sess registry uid tool_name0 (PStr s)
          = ([], Inr (invalid_arguments_message [] exc))"
    by (simp add: call_tool_rejected)
qed

theorem call_tool_falsy_arguments_witness:
  "\<not> truthy (PStr []) \<and> \<not> truthy PNone \<and> sample_loads ''{}'' = Decoded (PDict [])
   \<and> sample_loads [] = JSONDecodeError ''Expecting value: line 1 column 1 (char 0)''
   \<and> call_tool sample_loads ok_session jira_registry sample_uid ''get_issue'' (PStr [])
      = ([get_issue_call (PDict [])], Inr ''ok'')
   \<and> call_tool sample_loads ok_session jira_registry sample_uid ''get_issue'' PNone
      = ([get_issue_call (PDict [])], Inr ''ok'')
   \<and> call_tool sample_loads ok_session jira_registry sample_uid ''get_issue'' (PStr ''  '')
      = ([], Inr (invalid_arguments_message [] ''Expecting value: line 1 column 1 (char 0)''))"
proof -
  have l: "sample_loads ''{}'' = Decoded (PDict [])" by code_simp
  have l': "sample_loads [] = JSONDecodeError ''Expecting value: line 1 column 1 (char 0)''" by code_simp
  have w: "\<forall>c\<in>set ''  ''. is_space c" by code_simp
  have d: "call_tool sample_loads ok_session jira_registry sample_uid ''get_issue'' (PDict [])
      = ([get_issue_call (PDict [])], Inr ''ok'')"
    by code_simp
  from call_tool_falsy_arguments [of "PStr []" sample_loads ok_session jira_registry sample_uid
         "''get_issue''" "''  ''" "''Expecting value: line 1 column 1 (char 0)''"]
       call_tool_falsy_arguments [of PNone sample_loads ok_session jira_registry sample_uid
         "''get_issue''" "''  ''" "''Expecting value: line 1 column 1 (char 0)''"]
  show ?thesis
    using l l' w get_issue_nonblank d by simp
qed

end
